theory Spec2Isabelle
  imports Complex_Main "HOL-Library.Word"
begin

section \<open>Conventions of the embedding\<close>

text \<open>
  The development embeds \<^verbatim>\<open>galsim_jax/utils.py\<close> and the two training scripts
  \<^verbatim>\<open>scripts/VAE_Resnet_train_C.py\<close> and \<^verbatim>\<open>scripts/VAE_SD_C.py\<close>.

  \<^item> Floating-point numbers are real numbers: rounding, overflow, infinities and NaN are
    outside the model, except in \<open>sd_loss_fn_f32\<close> and \<open>resnet_loss_fn_f32\<close>, which carry
    the range of float32 through the last lines of the two loss functions.
  \<^item> An array is the list of its entries in row-major order; a batched array is the list
    of its per-example arrays. Reshapes that keep the entries (\<^verbatim>\<open>[..., 0]\<close> on a trailing
    axis of length one, \<^verbatim>\<open>expand_dims\<close>, \<^verbatim>\<open>reshape\<close>) are the identity. An operation
    on two arrays checks that their sizes agree and is \<open>ShapeError\<close> otherwise (numpy
    either broadcasts or raises there).
  \<^item> Every \<^verbatim>\<open>raise\<close> of the source is a value \<open>Inl e\<close> of a result type \<open>error + 'a\<close>.
  \<^item> The neural networks, the PSF convolution, the FFT, automatic differentiation, the
    optax optimizer and the random-key splitting are collaborators whose code is not part
    of the three files: they are fields of the records \<open>resnet_model\<close>, \<open>sd_model\<close> and
    \<open>trainer\<close>, and every theorem holds for all of them.
\<close>

datatype error =
    NotImplementedError
  | ValueError
  | ZeroDivisionError
  | UnboundLocalError
  | ShapeError
  | CommError
  | FileNotFoundError

definition bindE :: "error + 'a \<Rightarrow> ('a \<Rightarrow> error + 'b) \<Rightarrow> error + 'b" where
  "bindE m f = (case m of Inl e \<Rightarrow> Inl e | Inr v \<Rightarrow> f v)"

fun sequenceE :: "(error + 'a) list \<Rightarrow> error + 'a list" where
  "sequenceE [] = Inr []"
| "sequenceE (r # rs) = bindE r (\<lambda>v. bindE (sequenceE rs) (\<lambda>vs. Inr (v # vs)))"

text \<open>Element-wise binary operation of two arrays of the same shape.\<close>

definition jnp_map2 :: "('a \<Rightarrow> 'b \<Rightarrow> 'c) \<Rightarrow> 'a list \<Rightarrow> 'b list \<Rightarrow> error + 'c list" where
  "jnp_map2 f a b = (if length a = length b then Inr (map2 f a b) else Inl ShapeError)"

text \<open>\<^verbatim>\<open>jax.vmap(f)(as, bs)\<close>: \<open>f\<close> on every example of the batch; the batch sizes agree.\<close>

definition vmap2 :: "('a \<Rightarrow> 'b \<Rightarrow> error + 'c) \<Rightarrow> 'a list \<Rightarrow> 'b list \<Rightarrow> error + 'c list" where
  "vmap2 f as bs =
     (if length as = length bs then sequenceE (map2 f as bs) else Inl ShapeError)"

definition vmap3 ::
  "('a \<Rightarrow> 'b \<Rightarrow> 'c \<Rightarrow> error + 'd) \<Rightarrow> 'a list \<Rightarrow> 'b list \<Rightarrow> 'c list \<Rightarrow> error + 'd list" where
  "vmap3 f as bs cs =
     (if length as = length bs \<and> length bs = length cs
      then sequenceE (map (\<lambda>(a, b, c). f a b c) (zip as (zip bs cs)))
      else Inl ShapeError)"

text \<open>\<^verbatim>\<open>jnp.mean\<close> and \<^verbatim>\<open>np.mean\<close> over all entries (NaN on an empty array in the source).\<close>

definition jnp_mean :: "real list \<Rightarrow> real" where
  "jnp_mean a = sum_list a / real (length a)"

definition np_mean :: "real list \<Rightarrow> real" where
  "np_mean a = sum_list a / real (length a)"

text \<open>Python's \<^verbatim>\<open>min\<close> of a list, \<^verbatim>\<open>list.index\<close> and \<^verbatim>\<open>str\<close> of a natural number.\<close>

definition py_min :: "real list \<Rightarrow> error + real" where
  "py_min xs = (case xs of [] \<Rightarrow> Inl ValueError | x # ys \<Rightarrow> Inr (fold min ys x))"

definition py_index :: "real list \<Rightarrow> real \<Rightarrow> nat" where
  "py_index xs v = length (takeWhile (\<lambda>x. x \<noteq> v) xs)"

fun str_nat :: "nat \<Rightarrow> string" where
  "str_nat n =
     (if n < 10 then [''0123456789'' ! n]
      else str_nat (n div 10) @ [''0123456789'' ! (n mod 10)])"

type_synonym bytes = "8 word list"


section \<open>galsim\_jax/utils.py\<close>

subsection \<open>lr\_schedule\<close>

definition steps_per_epoch :: int where
  "steps_per_epoch = 12000 div 28"

definition boundaries :: "int list" where
  "boundaries = map (\<lambda>b. b * steps_per_epoch) [40, 100, 160]"

definition values_tbl :: "real list" where
  "values_tbl = [1.0, 0.1, 0.01, 0.001]"

text \<open>\<^verbatim>\<open>jnp.take\<close> in its default mode fills an out-of-range read with NaN: \<open>None\<close> here.\<close>

definition jnp_take :: "real list \<Rightarrow> nat \<Rightarrow> real option" where
  "jnp_take a i = (if i < length a then Some (a ! i) else None)"

definition lr_schedule :: "int \<Rightarrow> real option" where
  "lr_schedule step =
     (let current_epoch = real_of_int step / real_of_int steps_per_epoch;
          index = length (filter (\<lambda>b. b < step) boundaries)
      in jnp_take values_tbl index)"

subsection \<open>get\_activation\_fn and new\_optimizer\<close>

definition activation_functions :: "string list" where
  "activation_functions =
     [''linear'', ''relu'', ''relu6'', ''elu'', ''gelu'', ''prelu'', ''leaky_relu'',
      ''hardtanh'', ''sigmoid'', ''tanh'', ''log_sigmoid'', ''softplus'', ''softsign'',
      ''swish'']"

definition get_activation_fn :: "string \<Rightarrow> error + string" where
  "get_activation_fn name =
     (if name \<notin> set activation_functions then Inl ValueError else Inr name)"

text \<open>
  \<^verbatim>\<open>new_optimizer\<close> builds the cosine schedule first (optax refuses a horizon that is not
  positive), then looks the name up.
\<close>

definition new_optimizer :: "string \<Rightarrow> real \<Rightarrow> real \<Rightarrow> nat \<Rightarrow> error + string" where
  "new_optimizer name init_lr alpha total_steps =
     (if \<not> 0 < total_steps then Inl ValueError
      else if name \<notin> set [''adam'', ''adamw'', ''adafactor''] then Inl ValueError
      else Inr name)"

subsection \<open>save\_checkpoint and load\_checkpoint\<close>

text \<open>
  The world the two functions act on: the files of the working directory, and the
  versions logged to the artifact registry of the run, oldest first.
\<close>

record artifact =
  art_name :: string
  art_aliases :: "string list"
  art_files :: "(string \<times> bytes) list"

record world =
  run_id :: string
  files :: "string \<rightharpoonup> bytes"
  logged :: "artifact list"

definition basename :: "string \<Rightarrow> string" where
  "basename path = rev (takeWhile (\<lambda>c. c \<noteq> CHR ''/'') (rev path))"

text \<open>
  Modelled from the spec: the artifact registry, which is not part of the three files.
  An alias resolves to the most recently logged version that carries it (the spec's
  ``resolve best-for-run to the most recently saved qualifying blob''), and to nothing when
  no version carries it.
\<close>

definition use_artifact :: "string \<Rightarrow> string \<Rightarrow> world \<Rightarrow> artifact option" where
  "use_artifact name alias w =
     find (\<lambda>a. art_name a = name \<and> alias \<in> set (art_aliases a)) (rev (logged w))"

text \<open>
  The first argument of both functions is the serialization the source imports from flax:
  \<^verbatim>\<open>msgpack_serialize(to_state_dict(state))\<close> and \<^verbatim>\<open>from_bytes(state, byte_data)\<close>.
\<close>

definition save_checkpoint :: "('s \<Rightarrow> bytes) \<Rightarrow> string \<Rightarrow> 's \<Rightarrow> nat \<Rightarrow> world \<Rightarrow> world" where
  "save_checkpoint serialize ckpt_path state step w =
     (let byte_data = serialize state;
          w1 = w\<lparr>files := (files w)(ckpt_path \<mapsto> byte_data)\<rparr>;
          artifact = \<lparr>art_name = run_id w @ ''-checkpoint'',
                      art_aliases = [''best'', ''step_'' @ str_nat step],
                      art_files = [(basename ckpt_path, byte_data)]\<rparr>
      in w1\<lparr>logged := logged w1 @ [artifact]\<rparr>)"

definition load_checkpoint ::
  "('s \<Rightarrow> bytes \<Rightarrow> error + 's) \<Rightarrow> string \<Rightarrow> 's \<Rightarrow> world \<Rightarrow> error + 's" where
  "load_checkpoint from_bytes ckpt_file state w =
     (case use_artifact (run_id w @ ''-checkpoint'') ''best'' w of
        None \<Rightarrow> Inl CommError
      | Some artifact \<Rightarrow>
          (case map_of (art_files artifact) ckpt_file of
             None \<Rightarrow> Inl FileNotFoundError
           | Some byte_data \<Rightarrow> from_bytes state byte_data))"


subsection \<open>The serialization of a parameter tree\<close>

text \<open>
  Modelled from the spec: \<^verbatim>\<open>to_state_dict\<close>, \<^verbatim>\<open>msgpack_serialize\<close> and \<^verbatim>\<open>from_bytes\<close>, which
  \<^verbatim>\<open>utils.py\<close> imports from flax and which are not part of the three files. The spec asks
  for ``a length-prefixed or self-describing serialization of the nested Parameter Tree
  sufficient to round-trip exactly''. A parameter tree is a nested dictionary with string
  keys whose leaves are tensors; a tensor is its shape, the name of its dtype and its raw
  buffer, so that equality of trees is equality of the bits of every number. A natural
  number is written in base 128, low digit first, the high bit marking a continuation; a
  byte string and a text carry their length first; a node carries a tag, then a tensor its
  shape, dtype and buffer, and a dictionary the number of its entries and each key with
  its subtree, in order. Decoding follows the template: a tag, shape, dtype, number of
  entries or key that differs from the template's is an error, and so are bytes left over.
\<close>

datatype ptree = Tensor "nat list" string bytes | Dict "(string \<times> ptree) list"

fun enc_nat :: "nat \<Rightarrow> bytes" where
  "enc_nat n =
     (if n < 128 then [of_nat n] else of_nat (128 + n mod 128) # enc_nat (n div 128))"

fun dec_nat :: "bytes \<Rightarrow> (nat \<times> bytes) option" where
  "dec_nat [] = None"
| "dec_nat (b # bs) =
     (if unat b < 128 then Some (unat b, bs)
      else (case dec_nat bs of
              None \<Rightarrow> None
            | Some (m, rest) \<Rightarrow> Some (unat b - 128 + 128 * m, rest)))"

fun dec_many :: "(bytes \<Rightarrow> ('a \<times> bytes) option) \<Rightarrow> nat \<Rightarrow> bytes \<Rightarrow> ('a list \<times> bytes) option" where
  "dec_many d 0 bs = Some ([], bs)"
| "dec_many d (Suc n) bs =
     (case d bs of
        None \<Rightarrow> None
      | Some (x, r) \<Rightarrow>
          (case dec_many d n r of None \<Rightarrow> None | Some (xs, r') \<Rightarrow> Some (x # xs, r')))"

definition enc_nats :: "nat list \<Rightarrow> bytes" where
  "enc_nats ns = enc_nat (length ns) @ concat (map enc_nat ns)"

definition dec_nats :: "bytes \<Rightarrow> (nat list \<times> bytes) option" where
  "dec_nats bs = (case dec_nat bs of None \<Rightarrow> None | Some (n, r) \<Rightarrow> dec_many dec_nat n r)"

definition enc_bytes :: "bytes \<Rightarrow> bytes" where
  "enc_bytes b = enc_nat (length b) @ b"

definition dec_bytes :: "bytes \<Rightarrow> (bytes \<times> bytes) option" where
  "dec_bytes bs =
     (case dec_nat bs of
        None \<Rightarrow> None
      | Some (n, r) \<Rightarrow> if n \<le> length r then Some (take n r, drop n r) else None)"

definition enc_str :: "string \<Rightarrow> bytes" where
  "enc_str s = enc_bytes (map (\<lambda>c. of_nat (of_char c)) s)"

definition dec_str :: "bytes \<Rightarrow> (string \<times> bytes) option" where
  "dec_str bs =
     (case dec_bytes bs of
        None \<Rightarrow> None
      | Some (b, r) \<Rightarrow> Some (map (\<lambda>w. char_of (unat w)) b, r))"

fun enc_tree :: "ptree \<Rightarrow> bytes" where
  "enc_tree (Tensor sh dt buf) = 0 # enc_nats sh @ enc_str dt @ enc_bytes buf"
| "enc_tree (Dict kvs) =
     1 # enc_nat (length kvs) @ concat (map (\<lambda>(k, v). enc_str k @ enc_tree v) kvs)"

fun dec_tree :: "ptree \<Rightarrow> bytes \<Rightarrow> (ptree \<times> bytes) option"
  and dec_items ::
    "(string \<times> ptree) list \<Rightarrow> bytes \<Rightarrow> ((string \<times> ptree) list \<times> bytes) option" where
  "dec_tree (Tensor sh dt buf) bs =
     (case bs of
        [] \<Rightarrow> None
      | tag # r0 \<Rightarrow>
          if tag \<noteq> 0 then None
          else (case dec_nats r0 of None \<Rightarrow> None | Some (sh', r1) \<Rightarrow>
               (case dec_str r1 of None \<Rightarrow> None | Some (dt', r2) \<Rightarrow>
               (case dec_bytes r2 of None \<Rightarrow> None | Some (buf', r3) \<Rightarrow>
                  if sh' = sh \<and> dt' = dt then Some (Tensor sh' dt' buf', r3) else None))))"
| "dec_tree (Dict kvs) bs =
     (case bs of
        [] \<Rightarrow> None
      | tag # r0 \<Rightarrow>
          if tag \<noteq> 1 then None
          else (case dec_nat r0 of None \<Rightarrow> None | Some (n, r1) \<Rightarrow>
                  if n \<noteq> length kvs then None
                  else (case dec_items kvs r1 of
                          None \<Rightarrow> None
                        | Some (kvs', r2) \<Rightarrow> Some (Dict kvs', r2))))"
| "dec_items [] bs = Some ([], bs)"
| "dec_items ((k, t) # kvs) bs =
     (case dec_str bs of None \<Rightarrow> None | Some (k', r1) \<Rightarrow>
        if k' \<noteq> k then None
        else (case dec_tree t r1 of None \<Rightarrow> None | Some (t', r2) \<Rightarrow>
             (case dec_items kvs r2 of
                None \<Rightarrow> None
              | Some (kvs', r3) \<Rightarrow> Some ((k, t') # kvs', r3))))"

definition to_state_dict :: "ptree \<Rightarrow> ptree" where
  "to_state_dict state = state"

definition msgpack_serialize :: "ptree \<Rightarrow> bytes" where
  "msgpack_serialize state_dict = enc_tree state_dict"

definition from_bytes :: "ptree \<Rightarrow> bytes \<Rightarrow> error + ptree" where
  "from_bytes target encoded_bytes =
     (case dec_tree target encoded_bytes of
        None \<Rightarrow> Inl ShapeError
      | Some (state, rest) \<Rightarrow> if rest = [] then Inr state else Inl ShapeError)"


section \<open>The likelihood and the ELBO objective\<close>

text \<open>A batch of the dataset: the fields the two scripts read from it.\<close>

record batch =
  image_field :: "real list list"
  psf :: "real list list"
  kpsf_real :: "real list list"
  kpsf_imag :: "real list list"
  ps :: "real list list"
  noise_std :: "real list"

text \<open>
  The densities of \<^verbatim>\<open>tfd.MultivariateNormalDiag\<close> with an event of one entry (both
  scripts use one channel): the log-density of \<open>N(\<mu>, \<sigma>)\<close> at \<open>x\<close>, and the divergence
  of \<open>N(\<mu>\<^sub>1, \<sigma>\<^sub>1)\<close> from \<open>N(\<mu>\<^sub>2, \<sigma>\<^sub>2)\<close>.
\<close>

definition normal_log_prob :: "real \<Rightarrow> real \<Rightarrow> real \<Rightarrow> real" where
  "normal_log_prob \<mu> \<sigma> x = - ((x - \<mu>) / \<sigma>)\<^sup>2 / 2 - ln \<sigma> - ln (2 * pi) / 2"

definition normal_kl :: "real \<Rightarrow> real \<Rightarrow> real \<Rightarrow> real \<Rightarrow> real" where
  "normal_kl \<mu>1 \<sigma>1 \<mu>2 \<sigma>2 =
     ln (\<sigma>2 / \<sigma>1) + (\<sigma>1\<^sup>2 + (\<mu>1 - \<mu>2)\<^sup>2) / (2 * \<sigma>2\<^sup>2) - 1 / 2"

subsection \<open>VAE\_SD\_C.py: loglikelihood\_fn and loss\_fn\<close>

record ('p, 'k, 'd) sd_model =
  Autoencoder_apply :: "'p \<Rightarrow> real list list \<Rightarrow> 'k \<Rightarrow> real list list \<times> 'd \<times> real list list"
  posterior_log_prob :: "'d \<Rightarrow> real list list \<Rightarrow> real list list"
  convolve_kpsf :: "real list \<Rightarrow> complex list \<Rightarrow> real list"
  fourier_whiten :: "real list \<Rightarrow> real list \<Rightarrow> complex list"

text \<open>
  \<open>fourier_whiten x noise\<close> is the frequency-domain array
  \<^verbatim>\<open>jnp.fft.rfft2(x) / (jnp.sqrt(jnp.exp(noise)) + 0j) / stamp_size**2 * (2 * jnp.pi) ** 2\<close>.
  In pixel mode the noise argument is not read.
\<close>

definition loglikelihood_fn ::
  "(real list \<Rightarrow> real list \<Rightarrow> complex list) \<Rightarrow> real list \<Rightarrow> real list \<Rightarrow> real list \<Rightarrow> string
     \<Rightarrow> error + real" where
  "loglikelihood_fn whiten x y noise type =
     (if type = ''Fourier'' then
        (let xp = whiten x noise; yp = whiten y noise
         in bindE (jnp_map2 (-) xp yp)
              (\<lambda>d. Inr (- 0.5 * sum_list (map (\<lambda>c. (cmod c)\<^sup>2) d))))
      else if type = ''Pixel'' then
        bindE (jnp_map2 (-) x y)
          (\<lambda>d. Inr (- 0.5 * sum_list (map (\<lambda>v. \<bar>v\<bar>\<^sup>2) d) / 0.005\<^sup>2))
      else Inl NotImplementedError)"

text \<open>
  \<^verbatim>\<open>loglikelihood_fn = jax.vmap(partial(loglikelihood_fn, type=FLAGS.noise))\<close>:
  building it evaluates nothing.
\<close>

definition loglikelihood_vmap ::
  "(real list \<Rightarrow> real list \<Rightarrow> complex list) \<Rightarrow> string
     \<Rightarrow> real list list \<Rightarrow> real list list \<Rightarrow> real list list \<Rightarrow> error + real list" where
  "loglikelihood_vmap whiten flags_noise xs ys noises =
     vmap3 (\<lambda>x y noise. loglikelihood_fn whiten x y noise flags_noise) xs ys noises"

definition sd_loss_fn ::
  "('p, 'k, 'd) sd_model \<Rightarrow> string \<Rightarrow> 'p \<Rightarrow> 'k \<Rightarrow> batch \<Rightarrow> real \<Rightarrow> error + real \<times> real" where
  "sd_loss_fn m flags_noise params rng_key b reg_term =
     (let x = image_field b; std = noise_std b in
      bindE (vmap2 (jnp_map2 Complex) (kpsf_real b) (kpsf_imag b)) (\<lambda>kpsf.
      case Autoencoder_apply m params x rng_key of (q, posterior, code) \<Rightarrow>
      let log_prob = posterior_log_prob m posterior code in
      bindE (vmap2 (\<lambda>qi ki. Inr (convolve_kpsf m qi ki)) q kpsf) (\<lambda>p.
      bindE (if flags_noise = ''Fourier'' then
               loglikelihood_vmap (fourier_whiten m) flags_noise x p (ps b)
             else if flags_noise = ''Pixel'' then
               loglikelihood_vmap (fourier_whiten m) flags_noise x p (map (\<lambda>s. [s]) std)
             else Inl NotImplementedError) (\<lambda>log_likelihood.
      bindE (vmap2 (jnp_map2 (-)) log_prob (map (map (normal_log_prob 0 1)) code)) (\<lambda>d.
      let kl = map sum_list d in
      bindE (jnp_map2 (\<lambda>l k. l - reg_term * k) log_likelihood kl) (\<lambda>elbo.
      Inr (- jnp_mean elbo, - jnp_mean log_likelihood)))))))"

subsection \<open>VAE\_Resnet\_train\_C.py: loss\_fn\<close>

record ('pe, 'pd, 'k, 'd) resnet_model =
  Encoder_apply :: "'pe \<Rightarrow> real list list \<Rightarrow> 'd"
  sample :: "'d \<Rightarrow> 'k \<Rightarrow> real list list"
  Decoder_apply :: "'pd \<Rightarrow> real list list \<Rightarrow> real list list"
  convolve :: "real list \<Rightarrow> real list \<Rightarrow> real list"

text \<open>
  The decoded observation: encode, sample the posterior \<open>q\<close>, decode, convolve with the
  PSF. It is the \<open>loc\<close> of \<^verbatim>\<open>p = tfd.MultivariateNormalDiag(loc=p, scale_diag=std)\<close>.
\<close>

definition resnet_decode ::
  "('pe, 'pd, 'k, 'd) resnet_model \<Rightarrow> 'pe \<times> 'pd \<Rightarrow> 'k \<Rightarrow> batch \<Rightarrow> error + real list list" where
  "resnet_decode m params rng_key b =
     (case params of (params_enc, params_dec) \<Rightarrow>
      let x = image_field b;
          q = Encoder_apply m params_enc x;
          z = sample m q rng_key;
          p = Decoder_apply m params_dec z
      in vmap2 (\<lambda>pi psfi. Inr (convolve m pi psfi)) p (psf b))"

text \<open>
  \<^verbatim>\<open>tfd.kl_divergence(p, tfd.MultivariateNormalDiag(jnp.zeros((1, 128, 128, 1))))\<close> and
  \<^verbatim>\<open>p.log_prob(x)\<close>, one value per pixel; \<open>std\<close> holds one scale per example.
\<close>

definition mvn_kl_divergence :: "real list list \<Rightarrow> real list \<Rightarrow> error + real list list" where
  "mvn_kl_divergence loc std =
     vmap2 (\<lambda>li s. Inr (map (\<lambda>\<mu>. normal_kl \<mu> s 0 1) li)) loc std"

definition mvn_log_prob ::
  "real list list \<Rightarrow> real list \<Rightarrow> real list list \<Rightarrow> error + real list list" where
  "mvn_log_prob loc std x =
     vmap3 (\<lambda>li s xi. jnp_map2 (\<lambda>\<mu> v. normal_log_prob \<mu> s v) li xi) loc std x"

definition resnet_loss_fn ::
  "('pe, 'pd, 'k, 'd) resnet_model \<Rightarrow> 'pe \<times> 'pd \<Rightarrow> 'k \<Rightarrow> batch \<Rightarrow> real
     \<Rightarrow> error + real \<times> real" where
  "resnet_loss_fn m params rng_key b reg_term =
     (let x = image_field b; std = noise_std b in
      bindE (resnet_decode m params rng_key b) (\<lambda>p.
      bindE (mvn_kl_divergence p std) (\<lambda>kl.
      bindE (mvn_log_prob p std x) (\<lambda>log_likelihood.
      bindE (vmap2 (jnp_map2 (\<lambda>l k. l - reg_term * k)) log_likelihood kl) (\<lambda>elbo.
      Inr (- jnp_mean (concat elbo), - jnp_mean (concat log_likelihood)))))))"


subsection \<open>The last lines of loss\_fn in float32\<close>

text \<open>
  Both scripts end \<^verbatim>\<open>loss_fn\<close> with
  \<^verbatim>\<open>elbo = log_likelihood - reg_term * kl\<close>, \<^verbatim>\<open>loss = -jnp.mean(elbo)\<close> and
  \<^verbatim>\<open>return loss, -jnp.mean(log_likelihood)\<close>, computed by jax in float32. Over the reals
  \<open>0 * kl\<close> is \<open>0\<close> whatever \<open>kl\<close> is; in float32 it is not, so these lines are embedded a
  second time with the range of float32 written out.

  A float32 value is a finite number, one of the two infinities or NaN. A real quantity
  whose magnitude reaches \<open>2\<^sup>1\<^sup>2\<^sup>8 - 2\<^sup>1\<^sup>0\<^sup>3\<close>, the midpoint between the largest float32 and
  \<open>2\<^sup>1\<^sup>2\<^sup>8\<close>, rounds to an infinity. The operations follow IEEE 754 on the special values:
  \<open>0 * inf\<close> and \<open>inf - inf\<close> are NaN, and NaN is the result of every operation that reads
  it. Rounding inside the range and the sign of zero stay outside the model; the two
  operations that matter at \<open>reg_term = 0\<close>, a product with zero and a difference with
  zero, are exact in float32.
\<close>

datatype f32 = Finite real | PosInf | NegInf | NaN

definition f32_overflow :: real where
  "f32_overflow = 2 ^ 128 - 2 ^ 103"


definition f32_of_real :: "real \<Rightarrow> f32" where
  "f32_of_real v =
     (if f32_overflow \<le> v then PosInf else if v \<le> - f32_overflow then NegInf else Finite v)"

fun f32_neg :: "f32 \<Rightarrow> f32" where
  "f32_neg (Finite a) = Finite (- a)"
| "f32_neg PosInf = NegInf"
| "f32_neg NegInf = PosInf"
| "f32_neg NaN = NaN"

fun f32_add :: "f32 \<Rightarrow> f32 \<Rightarrow> f32" where
  "f32_add NaN y = NaN"
| "f32_add x NaN = NaN"
| "f32_add (Finite a) (Finite b) = f32_of_real (a + b)"
| "f32_add (Finite a) y = y"
| "f32_add x (Finite b) = x"
| "f32_add PosInf PosInf = PosInf"
| "f32_add NegInf NegInf = NegInf"
| "f32_add PosInf NegInf = NaN"
| "f32_add NegInf PosInf = NaN"

definition f32_sub :: "f32 \<Rightarrow> f32 \<Rightarrow> f32" where
  "f32_sub x y = f32_add x (f32_neg y)"




text \<open>
  \<open>sd_loss_terms\<close> is \<^verbatim>\<open>loss_fn\<close> of \<^verbatim>\<open>VAE_SD_C.py\<close> down to the line that computes \<^verbatim>\<open>kl\<close>:
  it returns the arrays \<^verbatim>\<open>log_likelihood\<close> and \<^verbatim>\<open>kl\<close>, one entry per example.
  \<open>sd_loss_fn_f32\<close> is the whole function, the two arrays taken as float32 arrays (an
  entry beyond the range is an infinity) and the last lines computed on them.
\<close>

definition sd_loss_terms ::
  "('p, 'k, 'd) sd_model \<Rightarrow> string \<Rightarrow> 'p \<Rightarrow> 'k \<Rightarrow> batch \<Rightarrow> error + real list \<times> real list" where
  "sd_loss_terms m flags_noise params rng_key b =
     (let x = image_field b; std = noise_std b in
      bindE (vmap2 (jnp_map2 Complex) (kpsf_real b) (kpsf_imag b)) (\<lambda>kpsf.
      case Autoencoder_apply m params x rng_key of (q, posterior, code) \<Rightarrow>
      let log_prob = posterior_log_prob m posterior code in
      bindE (vmap2 (\<lambda>qi ki. Inr (convolve_kpsf m qi ki)) q kpsf) (\<lambda>p.
      bindE (if flags_noise = ''Fourier'' then
               loglikelihood_vmap (fourier_whiten m) flags_noise x p (ps b)
             else if flags_noise = ''Pixel'' then
               loglikelihood_vmap (fourier_whiten m) flags_noise x p (map (\<lambda>s. [s]) std)
             else Inl NotImplementedError) (\<lambda>log_likelihood.
      bindE (vmap2 (jnp_map2 (-)) log_prob (map (map (normal_log_prob 0 1)) code)) (\<lambda>d.
      let kl = map sum_list d in
      Inr (log_likelihood, kl))))))"


text \<open>
  The same for \<^verbatim>\<open>loss_fn\<close> of \<^verbatim>\<open>VAE_Resnet_train_C.py\<close>, whose two arrays hold one entry
  per pixel.
\<close>

definition resnet_loss_terms ::
  "('pe, 'pd, 'k, 'd) resnet_model \<Rightarrow> 'pe \<times> 'pd \<Rightarrow> 'k \<Rightarrow> batch
     \<Rightarrow> error + real list list \<times> real list list" where
  "resnet_loss_terms m params rng_key b =
     (let x = image_field b; std = noise_std b in
      bindE (resnet_decode m params rng_key b) (\<lambda>p.
      bindE (mvn_kl_divergence p std) (\<lambda>kl.
      bindE (mvn_log_prob p std x) (\<lambda>log_likelihood.
      Inr (log_likelihood, kl)))))"



section \<open>The training scripts\<close>

text \<open>
  \<open>main\<close> of either script is one function. The embedding cuts it at its comments into
  setup (up to \<^verbatim>\<open>best_eval_loss = 1e6\<close>), the body of the training loop, and what follows
  the loop. Plotting and metric logging are left out; the artifact registry is kept.
\<close>

record flags =
  training_steps :: nat
  learning_rate :: real
  reg_value :: real
  act_fn :: string
  opt :: string
  noise :: string
  alpha :: real

text \<open>
  The collaborators of the loop. \<open>dset tr i\<close> is the \<open>i\<close>-th batch the repeated training
  stream yields, \<open>test_dset tr\<close> the finite held-out split; \<open>grad tr f p\<close> is the gradient
  \<^verbatim>\<open>jax.value_and_grad\<close> returns beside the value of \<open>f\<close> at \<open>p\<close>; \<open>serialize\<close> and
  \<open>deserialize\<close> are flax's \<^verbatim>\<open>msgpack_serialize(to_state_dict(.))\<close> and \<^verbatim>\<open>from_bytes\<close>.
\<close>

record ('p, 'k, 'o) trainer =
  PRNGKey :: "nat \<Rightarrow> 'k"
  split :: "'k \<Rightarrow> 'k \<times> 'k"
  dset :: "nat \<Rightarrow> batch"
  test_dset :: "batch list"
  model_init :: "'k \<Rightarrow> 'k \<Rightarrow> 'p"
  optimizer_init :: "'p \<Rightarrow> 'o"
  grad :: "('p \<Rightarrow> error + real \<times> real) \<Rightarrow> 'p \<Rightarrow> 'p"
  optimizer_update :: "'p \<Rightarrow> 'o \<Rightarrow> 'p \<Rightarrow> 'p \<times> 'o"
  apply_updates :: "'p \<Rightarrow> 'p \<Rightarrow> 'p"
  serialize :: "'p \<Rightarrow> bytes"
  deserialize :: "'p \<Rightarrow> bytes \<Rightarrow> error + 'p"
  wandb_run_id :: string

text \<open>The local variables of \<open>main\<close> that the loop reads and writes.\<close>

record ('p, 'k, 'o) train_state =
  rng :: 'k
  dset_pos :: nat
  params :: 'p
  opt_state :: 'o
  losses :: "real list"
  log_liks :: "real list"
  losses_test :: "real list"
  losses_test_step :: "nat list"
  log_liks_test :: "real list"
  log_likelihood_test :: "real option"
  best_eval_loss :: real
  wandb :: world

subsection \<open>update\<close>

definition update ::
  "('p, 'k, 'o) trainer \<Rightarrow> ('p \<Rightarrow> 'k \<Rightarrow> batch \<Rightarrow> real \<Rightarrow> error + real \<times> real) \<Rightarrow> real
     \<Rightarrow> 'p \<Rightarrow> 'k \<Rightarrow> 'o \<Rightarrow> batch \<Rightarrow> error + real \<times> real \<times> 'p \<times> 'o" where
  "update tr loss_fn flags_reg_value params0 rng_key opt_state0 b =
     bindE (loss_fn params0 rng_key b flags_reg_value) (\<lambda>(loss, log_likelihood).
     let grads = grad tr (\<lambda>p. loss_fn p rng_key b flags_reg_value) params0 in
     case optimizer_update tr grads opt_state0 params0 of (updates, new_opt_state) \<Rightarrow>
     let new_params = apply_updates tr params0 updates
     in Inr (loss, log_likelihood, new_params, new_opt_state))"

subsection \<open>Saving the best checkpoint\<close>

text \<open>VAE\_Resnet\_train\_C.py, lines 291 to 296.\<close>

definition resnet_save_best ::
  "('p \<Rightarrow> bytes) \<Rightarrow> nat \<Rightarrow> real \<Rightarrow> ('p, 'k, 'o) train_state \<Rightarrow> ('p, 'k, 'o) train_state" where
  "resnet_save_best ser step loss st =
     (if loss < best_eval_loss st then
        (let st1 = st\<lparr>best_eval_loss := loss\<rparr> in
         if best_eval_loss st1 < 1 then
           st1\<lparr>wandb := save_checkpoint ser ''checkpoint.msgpack'' (params st1) step (wandb st1)\<rparr>
         else st1)
      else st)"

text \<open>VAE\_SD\_C.py, lines 331 to 336: the threshold test is commented out.\<close>

definition sd_save_best ::
  "('p \<Rightarrow> bytes) \<Rightarrow> nat \<Rightarrow> real \<Rightarrow> ('p, 'k, 'o) train_state \<Rightarrow> ('p, 'k, 'o) train_state" where
  "sd_save_best ser step loss st =
     (if loss < best_eval_loss st then
        (let st1 = st\<lparr>best_eval_loss := loss\<rparr> in
         st1\<lparr>wandb := save_checkpoint ser ''checkpoint.msgpack'' (params st1) step (wandb st1)\<rparr>)
      else st)"

subsection \<open>Evaluation on the held-out split\<close>

text \<open>
  The \<^verbatim>\<open>for img in test_iterator\<close> loop, on the triple of \<open>rng\<close>, \<open>for_list_mean\<close> and the
  variable \<open>log_likelihood_test\<close> (\<open>None\<close> while it is unbound).
\<close>

fun eval_loop ::
  "('p, 'k, 'o) trainer \<Rightarrow> ('p \<Rightarrow> 'k \<Rightarrow> batch \<Rightarrow> real \<Rightarrow> error + real \<times> real) \<Rightarrow> real \<Rightarrow> 'p
     \<Rightarrow> batch list \<Rightarrow> 'k \<times> real list \<times> real option \<Rightarrow> error + 'k \<times> real list \<times> real option" where
  "eval_loop tr loss_fn flags_reg_value ps0 [] acc = Inr acc"
| "eval_loop tr loss_fn flags_reg_value ps0 (img # imgs) (rng0, for_list_mean, ll) =
     (case split tr rng0 of (rng1, rng_1) \<Rightarrow>
      bindE (loss_fn ps0 rng_1 img flags_reg_value) (\<lambda>(loss_test, ll_test).
      eval_loop tr loss_fn flags_reg_value ps0 imgs
        (rng1, for_list_mean @ [loss_test], Some ll_test)))"

definition evaluate ::
  "('p, 'k, 'o) trainer \<Rightarrow> ('p \<Rightarrow> 'k \<Rightarrow> batch \<Rightarrow> real \<Rightarrow> error + real \<times> real) \<Rightarrow> real \<Rightarrow> nat
     \<Rightarrow> ('p, 'k, 'o) train_state \<Rightarrow> error + ('p, 'k, 'o) train_state" where
  "evaluate tr loss_fn flags_reg_value step st =
     bindE (eval_loop tr loss_fn flags_reg_value (params st) (test_dset tr)
              (rng st, [], log_likelihood_test st)) (\<lambda>(rng1, for_list_mean, ll).
     case ll of
       None \<Rightarrow> Inl UnboundLocalError
     | Some l \<Rightarrow>
         Inr (st\<lparr>rng := rng1,
                 losses_test := losses_test st @ [np_mean for_list_mean],
                 losses_test_step := losses_test_step st @ [step],
                 log_liks_test := log_liks_test st @ [l],
                 log_likelihood_test := Some l\<rparr>))"

subsection \<open>The training loop\<close>

text \<open>
  One iteration of \<^verbatim>\<open>for step in tqdm(range(1, config.steps + 1))\<close>. The two scripts
  differ in \<open>loss_fn\<close> and in how they save the best checkpoint. Python's \<^verbatim>\<open>%\<close> raises
  on a zero divisor.
\<close>

definition train_step ::
  "('p, 'k, 'o) trainer \<Rightarrow> ('p \<Rightarrow> 'k \<Rightarrow> batch \<Rightarrow> real \<Rightarrow> error + real \<times> real)
     \<Rightarrow> (nat \<Rightarrow> real \<Rightarrow> ('p, 'k, 'o) train_state \<Rightarrow> ('p, 'k, 'o) train_state)
     \<Rightarrow> flags \<Rightarrow> nat \<Rightarrow> ('p, 'k, 'o) train_state \<Rightarrow> error + ('p, 'k, 'o) train_state" where
  "train_step tr loss_fn save_best fl step st =
     (case split tr (rng st) of (rng1, rng_1) \<Rightarrow>
      let batch_im = dset tr (dset_pos st) in
      bindE (update tr loss_fn (reg_value fl) (params st) rng_1 (opt_state st) batch_im)
        (\<lambda>(loss, log_likelihood, new_params, new_opt_state).
      let st1 = st\<lparr>rng := rng1, dset_pos := Suc (dset_pos st),
                   params := new_params, opt_state := new_opt_state,
                   losses := losses st @ [loss],
                   log_liks := log_liks st @ [log_likelihood]\<rparr>;
          st2 = save_best step loss st1
      in if training_steps fl div 50 = 0 then Inl ZeroDivisionError
         else if step mod (training_steps fl div 50) = 0 then
           evaluate tr loss_fn (reg_value fl) step st2
         else Inr st2))"

fun train_loop ::
  "(nat \<Rightarrow> 's \<Rightarrow> error + 's) \<Rightarrow> nat list \<Rightarrow> 's \<Rightarrow> error + 's" where
  "train_loop body [] st = Inr st"
| "train_loop body (step # steps) st = bindE (body step st) (train_loop body steps)"

definition resnet_train_step ::
  "('pe \<times> 'pd, 'k, 'o) trainer \<Rightarrow> ('pe, 'pd, 'k, 'd) resnet_model \<Rightarrow> flags \<Rightarrow> nat
     \<Rightarrow> ('pe \<times> 'pd, 'k, 'o) train_state \<Rightarrow> error + ('pe \<times> 'pd, 'k, 'o) train_state" where
  "resnet_train_step tr m fl =
     train_step tr (resnet_loss_fn m) (resnet_save_best (serialize tr)) fl"

definition sd_train_step ::
  "('p, 'k, 'o) trainer \<Rightarrow> ('p, 'k, 'd) sd_model \<Rightarrow> flags \<Rightarrow> nat
     \<Rightarrow> ('p, 'k, 'o) train_state \<Rightarrow> error + ('p, 'k, 'o) train_state" where
  "sd_train_step tr m fl =
     train_step tr (sd_loss_fn m (noise fl)) (sd_save_best (serialize tr)) fl"

subsection \<open>Setup\<close>

text \<open>
  A run starts with a fresh run identifier, hence with no version logged under it. One
  batch is taken from the stream before the loop (\<^verbatim>\<open>batch_im = next(dset)\<close>).
\<close>

definition initial_state ::
  "('p, 'k, 'o) trainer \<Rightarrow> 'k \<Rightarrow> 'p \<Rightarrow> ('p, 'k, 'o) train_state" where
  "initial_state tr rng0 params0 =
     \<lparr>rng = rng0, dset_pos = 1, params = params0, opt_state = optimizer_init tr params0,
      losses = [], log_liks = [], losses_test = [], losses_test_step = [],
      log_liks_test = [], log_likelihood_test = None, best_eval_loss = 1000000,
      wandb = \<lparr>run_id = wandb_run_id tr, files = Map.empty, logged = []\<rparr>\<rparr>"

definition resnet_setup ::
  "('p, 'k, 'o) trainer \<Rightarrow> flags \<Rightarrow> error + ('p, 'k, 'o) train_state" where
  "resnet_setup tr fl =
     (let rng0 = PRNGKey tr 0 in
      bindE (get_activation_fn (act_fn fl)) (\<lambda>act.
      case split tr rng0 of (rng1, rng_1) \<Rightarrow>
      let params0 = model_init tr rng0 rng_1
      in Inr (initial_state tr rng1 params0)))"

definition sd_setup ::
  "('p, 'k, 'o) trainer \<Rightarrow> flags \<Rightarrow> error + ('p, 'k, 'o) train_state" where
  "sd_setup tr fl =
     (let rng0 = PRNGKey tr 0; rng_2 = PRNGKey tr 1 in
      bindE (get_activation_fn (act_fn fl)) (\<lambda>act.
      let params0 = model_init tr rng0 rng_2 in
      bindE (new_optimizer (opt fl) (learning_rate fl) (alpha fl) (training_steps fl))
        (\<lambda>optimizer.
      Inr (initial_state tr rng0 params0))))"

subsection \<open>After the loop\<close>

record 'p final =
  final_params :: 'p
  best_step :: nat
  best_step_log :: nat

definition report_best :: "('p, 'k, 'o) train_state \<Rightarrow> 'p \<Rightarrow> error + 'p final" where
  "report_best st params1 =
     bindE (py_min (losses st)) (\<lambda>loss_min.
     bindE (py_min (log_liks st)) (\<lambda>log_lik_min.
     Inr \<lparr>final_params = params1,
          best_step = py_index (losses st) loss_min + 1,
          best_step_log = py_index (log_liks st) log_lik_min + 1\<rparr>))"

text \<open>
  VAE\_Resnet\_train\_C.py, line 331: \<^verbatim>\<open>params = load_checkpoint("checkpoint.msgpack", params)\<close>.
\<close>

definition resnet_finalize ::
  "('p, 'k, 'o) trainer \<Rightarrow> ('p, 'k, 'o) train_state \<Rightarrow> error + 'p final" where
  "resnet_finalize tr st =
     bindE (load_checkpoint (deserialize tr) ''checkpoint.msgpack'' (params st) (wandb st))
       (\<lambda>params1. report_best st params1)"

text \<open>VAE\_SD\_C.py, line 371: the same call is commented out.\<close>

definition sd_finalize ::
  "('p, 'k, 'o) trainer \<Rightarrow> ('p, 'k, 'o) train_state \<Rightarrow> error + 'p final" where
  "sd_finalize tr st = report_best st (params st)"

definition resnet_main ::
  "('pe \<times> 'pd, 'k, 'o) trainer \<Rightarrow> ('pe, 'pd, 'k, 'd) resnet_model \<Rightarrow> flags
     \<Rightarrow> error + ('pe \<times> 'pd) final" where
  "resnet_main tr m fl =
     bindE (resnet_setup tr fl) (\<lambda>st0.
     bindE (train_loop (resnet_train_step tr m fl) [1..<Suc (training_steps fl)] st0)
       (resnet_finalize tr))"

definition sd_main ::
  "('p, 'k, 'o) trainer \<Rightarrow> ('p, 'k, 'd) sd_model \<Rightarrow> flags \<Rightarrow> error + 'p final" where
  "sd_main tr m fl =
     bindE (sd_setup tr fl) (\<lambda>st0.
     bindE (train_loop (sd_train_step tr m fl) [1..<Suc (training_steps fl)] st0)
       (sd_finalize tr))"


text \<open>The state after the update of a step, before the checkpoint is considered.\<close>

definition after_update ::
  "('p, 'k, 'o) trainer \<Rightarrow> ('p \<Rightarrow> 'k \<Rightarrow> batch \<Rightarrow> real \<Rightarrow> error + real \<times> real) \<Rightarrow> flags
     \<Rightarrow> ('p, 'k, 'o) train_state \<Rightarrow> real \<Rightarrow> real \<Rightarrow> ('p, 'k, 'o) train_state" where
  "after_update tr lf fl st loss ll =
     (let rng_1 = snd (split tr (rng st)); b = dset tr (dset_pos st);
          u = optimizer_update tr (grad tr (\<lambda>q. lf q rng_1 b (reg_value fl)) (params st))
                (opt_state st) (params st)
      in st\<lparr>rng := fst (split tr (rng st)), dset_pos := Suc (dset_pos st),
             params := apply_updates tr (params st) (fst u), opt_state := snd u,
             losses := losses st @ [loss], log_liks := log_liks st @ [ll]\<rparr>)"

section \<open>Concrete instances\<close>

text \<open>
  Small collaborators on which the theorems below are instantiated. Stamps have the
  resolution of the dataset, \<open>128 \<times> 128\<close>, and a constant value; keys, optimizer states
  and parameters are natural numbers.
\<close>

definition n_pixels :: nat where
  "n_pixels = 128 * 128"

definition flat_image :: "real \<Rightarrow> real list" where
  "flat_image v = replicate n_pixels v"

definition demo_batch :: batch where
  "demo_batch =
     \<lparr>image_field = [flat_image 2], psf = [flat_image 1], kpsf_real = [flat_image 1],
      kpsf_imag = [flat_image 0], ps = [flat_image 0], noise_std = [1 / 10]\<rparr>"

text \<open>
  A ResNet pair whose encoder returns the posterior \<open>N(0, 1)\<close>, given by its mean and
  scale, which is the prior itself; the decoder returns the stamp of constant value
  \<open>params_dec\<close>; convolution with the PSF leaves a stamp as it is.
\<close>

definition demo_resnet :: "(nat, nat, nat, real \<times> real) resnet_model" where
  "demo_resnet =
     \<lparr>Encoder_apply = (\<lambda>pe x. (0, 1)),
      sample = (\<lambda>d key. [[fst d]]),
      Decoder_apply = (\<lambda>pd z. map (\<lambda>zi. flat_image (real pd)) z),
      convolve = (\<lambda>pi psfi. pi)\<rparr>"

text \<open>
  An autoencoder that decodes every image to the stamp of constant value \<open>2\<close>, with one
  latent entry \<open>0\<close> per example and a posterior log-density that exceeds the prior's by \<open>3\<close>.
\<close>

definition demo_sd :: "(nat, nat, unit) sd_model" where
  "demo_sd =
     \<lparr>Autoencoder_apply = (\<lambda>p x key. (map (\<lambda>xi. flat_image 2) x, (), map (\<lambda>xi. [0]) x)),
      posterior_log_prob = (\<lambda>d code. map (map (\<lambda>z. normal_log_prob 0 1 z + 3)) code),
      convolve_kpsf = (\<lambda>qi ki. qi),
      fourier_whiten = (\<lambda>x nz. map complex_of_real x)\<rparr>"

text \<open>
  A trainer whose update adds \<open>1\<close> to every parameter, whose training stream repeats
  \<open>demo_batch\<close> and whose held-out split is that one batch.
\<close>

definition demo_sd_trainer :: "(nat, nat, nat) trainer" where
  "demo_sd_trainer =
     \<lparr>PRNGKey = (\<lambda>n. n),
      split = (\<lambda>key. (Suc key, key)),
      dset = (\<lambda>i. demo_batch),
      test_dset = [demo_batch],
      model_init = (\<lambda>k1 k2. 7),
      optimizer_init = (\<lambda>p. 0),
      grad = (\<lambda>f p. 1),
      optimizer_update = (\<lambda>g s p. (g, Suc s)),
      apply_updates = (\<lambda>p u. p + u),
      serialize = (\<lambda>p. [of_nat p]),
      deserialize = (\<lambda>p bs. case bs of [b] \<Rightarrow> Inr (unat b) | _ \<Rightarrow> Inl ShapeError),
      wandb_run_id = ''run0''\<rparr>"

definition demo_resnet_trainer :: "(nat \<times> nat, nat, nat) trainer" where
  "demo_resnet_trainer =
     \<lparr>PRNGKey = (\<lambda>n. n),
      split = (\<lambda>key. (Suc key, key)),
      dset = (\<lambda>i. demo_batch),
      test_dset = [demo_batch],
      model_init = (\<lambda>k1 k2. (0, 2)),
      optimizer_init = (\<lambda>p. 0),
      grad = (\<lambda>f p. (0, 1)),
      optimizer_update = (\<lambda>g s p. (g, Suc s)),
      apply_updates = (\<lambda>p u. (fst p + fst u, snd p + snd u)),
      serialize = (\<lambda>p. [of_nat (fst p), of_nat (snd p)]),
      deserialize = (\<lambda>p bs. case bs of [a, b] \<Rightarrow> Inr (unat a, unat b) | _ \<Rightarrow> Inl ShapeError),
      wandb_run_id = ''run0''\<rparr>"

definition demo_flags :: flags where
  "demo_flags =
     \<lparr>training_steps = 100, learning_rate = 1 / 1000, reg_value = 1 / 100,
      act_fn = ''gelu'', opt = ''adafactor'', noise = ''Pixel'', alpha = 1 / 10000\<rparr>"


text \<open>A parameter tree with a nested dictionary and two leaves, and a fresh run.\<close>

definition demo_tree :: "bytes \<Rightarrow> ptree" where
  "demo_tree buf =
     Dict [(''params'',
            Dict [(''kernel'', Tensor [1, 2] ''float32'' buf),
                  (''bias'', Tensor [] ''float32'' [0, 0, 0, 0])])]"

definition demo_world :: world where
  "demo_world = \<lparr>run_id = ''run0'', files = Map.empty, logged = []\<rparr>"



section \<open>Properties\<close>

subsection \<open>The error monad\<close>

lemma bindE_Inl [simp]: "bindE (Inl e) f = Inl e"
  by (simp add: bindE_def)

lemma bindE_Inr [simp]: "bindE (Inr v) f = f v"
  by (simp add: bindE_def)

lemma bindE_eq_Inr: "bindE m f = Inr r \<longleftrightarrow> (\<exists>v. m = Inr v \<and> f v = Inr r)"
  by (cases m) simp_all

subsection \<open>The piecewise learning-rate schedule\<close>

lemma lr_schedule_cases:
  "lr_schedule s =
     (if s \<le> 17120 then Some 1 else if s \<le> 42800 then Some 0.1
      else if s \<le> 68480 then Some 0.01 else Some 0.001)"
  by (simp add: lr_schedule_def boundaries_def steps_per_epoch_def values_tbl_def jnp_take_def)

lemma lr_schedule_image: "lr_schedule s \<in> Some ` set values_tbl"
  by (simp add: lr_schedule_cases values_tbl_def)

lemma lr_schedule_in_table: "\<exists>a. lr_schedule s = Some a \<and> a \<in> set values_tbl"
  using lr_schedule_image [of s] by blast

lemma lr_schedule_antimono:
  "s \<le> t \<Longrightarrow> lr_schedule s = Some a \<Longrightarrow> lr_schedule t = Some b \<Longrightarrow> b \<le> a"
  by (auto simp add: lr_schedule_cases split: if_splits)

text \<open>
  Claim C9. For steps \<open>s \<le> t\<close> the multiplier \<open>lr_schedule\<close> returns at \<open>t\<close> is at most
  the one at \<open>s\<close>, both are entries of the table \<open>[1.0, 0.1, 0.01, 0.001]\<close> (the read is
  never out of range), and before the first boundary, \<open>40\<close> epochs, the multiplier is \<open>1\<close>.
\<close>

theorem lr_schedule_monotone:
  "(s \<le> t \<longrightarrow> (\<exists>a b. lr_schedule s = Some a \<and> lr_schedule t = Some b \<and> b \<le> a
        \<and> a \<in> set values_tbl \<and> b \<in> set values_tbl))
   \<and> (s < 40 * steps_per_epoch \<longrightarrow> lr_schedule s = Some 1)"
proof (intro conjI impI)
  assume st: "s \<le> t"
  obtain a where a: "lr_schedule s = Some a" "a \<in> set values_tbl"
    using lr_schedule_in_table by blast
  obtain b where b: "lr_schedule t = Some b" "b \<in> set values_tbl"
    using lr_schedule_in_table by blast
  have "b \<le> a" using lr_schedule_antimono [OF st a(1) b(1)] .
  with a b show "\<exists>a b. lr_schedule s = Some a \<and> lr_schedule t = Some b \<and> b \<le> a
        \<and> a \<in> set values_tbl \<and> b \<in> set values_tbl" by blast
next
  assume "s < 40 * steps_per_epoch"
  then show "lr_schedule s = Some 1"
    by (simp add: lr_schedule_cases steps_per_epoch_def)
qed

theorem lr_schedule_monotone_witness:
  "(17121::int) \<le> 50000 \<and> lr_schedule 17121 = Some 0.1 \<and> lr_schedule 50000 = Some 0.01
   \<and> (0.01::real) \<le> 0.1 \<and> (17000::int) < 40 * steps_per_epoch \<and> lr_schedule 17000 = Some 1"
  using lr_schedule_monotone [of 17121 50000] lr_schedule_monotone [of 17000 0]
  by (simp add: lr_schedule_cases steps_per_epoch_def)

subsection \<open>The pixel-mode likelihood\<close>

lemma sum_list_map2_diff_sq:
  "length x = length y \<Longrightarrow>
   sum_list (map (\<lambda>v::real. \<bar>v\<bar>\<^sup>2) (map2 (-) x y)) = (\<Sum>i<length x. (x ! i - y ! i)\<^sup>2)"
proof (induction x y rule: list_induct2)
  case Nil
  show ?case by simp
next
  case (Cons a x b y)
  then show ?case by (simp add: sum.lessThan_Suc_shift del: sum.lessThan_Suc)
qed

lemma sum_list_map2_diff_self:
  "sum_list (map (\<lambda>v::real. \<bar>v\<bar>\<^sup>2) (map2 (-) x x)) = 0"
  by (induction x) simp_all

lemma loglikelihood_fn_Pixel:
  "length x = length y \<Longrightarrow>
   loglikelihood_fn whiten x y nz ''Pixel''
     = Inr (- 0.5 * sum_list (map (\<lambda>v. \<bar>v\<bar>\<^sup>2) (map2 (-) x y)) / 0.005\<^sup>2)"
  by (simp add: loglikelihood_fn_def jnp_map2_def)

text \<open>
  Claim C1. In pixel mode \<open>loglikelihood_fn\<close> returns
  \<open>-0.5 * sum((observed - predicted)^2) / 0.005^2\<close> for an observed and a predicted array
  of the same shape; the result is the same for any two noise descriptors (the constant
  \<open>0.005\<close> stands where the batch's standard deviation would); and it is \<open>0\<close> when the
  observed array is the predicted one.
\<close>

theorem pixel_loglikelihood:
  "(length x = length y \<longrightarrow>
      loglikelihood_fn whiten x y nz ''Pixel''
        = Inr (- 0.5 * (\<Sum>i<length x. (x ! i - y ! i)\<^sup>2) / 0.005\<^sup>2))
   \<and> loglikelihood_fn whiten x y nz ''Pixel'' = loglikelihood_fn whiten x y nz' ''Pixel''
   \<and> loglikelihood_fn whiten x x nz ''Pixel'' = Inr 0"
proof (intro conjI impI)
  assume len: "length x = length y"
  show "loglikelihood_fn whiten x y nz ''Pixel''
        = Inr (- 0.5 * (\<Sum>i<length x. (x ! i - y ! i)\<^sup>2) / 0.005\<^sup>2)"
    by (simp only: loglikelihood_fn_Pixel [OF len] sum_list_map2_diff_sq [OF len])
next
  show "loglikelihood_fn whiten x y nz ''Pixel'' = loglikelihood_fn whiten x y nz' ''Pixel''"
    by (simp add: loglikelihood_fn_def)
next
  have "loglikelihood_fn whiten x x nz ''Pixel''
          = Inr (- 0.5 * sum_list (map (\<lambda>v. \<bar>v\<bar>\<^sup>2) (map2 (-) x x)) / 0.005\<^sup>2)"
    by (rule loglikelihood_fn_Pixel) simp
  then show "loglikelihood_fn whiten x x nz ''Pixel'' = Inr 0"
    by (simp only: sum_list_map2_diff_self) simp
qed

theorem pixel_loglikelihood_witness:
  "length [1, 2::real] = length [1.5, 2::real]
   \<and> loglikelihood_fn (\<lambda>x n. []) [1, 2] [1.5, 2] [7] ''Pixel'' = Inr (- 5000)"
proof -
  have h: "length [1, 2::real] = length [1.5, 2::real]" by simp
  have "loglikelihood_fn (\<lambda>x n. []) [1, 2] [1.5, 2] [7] ''Pixel''
        = Inr (- 0.5 * (\<Sum>i<length [1, 2::real]. ([1, 2] ! i - [1.5, 2::real] ! i)\<^sup>2) / 0.005\<^sup>2)"
    using pixel_loglikelihood [of "[1, 2]" "[1.5, 2]" "\<lambda>x n. []" "[7]" "[7]"] h by blast
  also have "\<dots> = Inr (- 5000)"
    by (simp add: lessThan_Suc numeral_2_eq_2 power2_eq_square)
  finally show ?thesis using h by blast
qed

subsection \<open>The ELBO objective and the training loop\<close>

lemma sequenceE_eq_Inr:
  "sequenceE rs = Inr vs \<longleftrightarrow> rs = map Inr vs"
proof (induction rs arbitrary: vs)
  case Nil
  show ?case by auto
next
  case (Cons r rs)
  show ?case
  proof (cases r)
    case (Inl e)
    then show ?thesis by (cases vs) auto
  next
    case (Inr v)
    then show ?thesis using Cons.IH by (cases vs) (auto simp: bindE_eq_Inr)
  qed
qed

lemma jnp_map2_eq_Inr:
  "jnp_map2 f a b = Inr r \<longleftrightarrow> length a = length b \<and> r = map2 f a b"
  by (auto simp: jnp_map2_def)

lemma vmap2_jnp_map2_eq_Inr:
  "vmap2 (jnp_map2 f) xs ys = Inr e \<longleftrightarrow>
     list_all2 (\<lambda>a b. length a = length b) xs ys \<and> e = map2 (map2 f) xs ys"
proof (cases "length xs = length ys")
  case False
  then show ?thesis by (auto simp: vmap2_def dest: list_all2_lengthD)
next
  case True
  then show ?thesis
  proof (induction xs ys arbitrary: e rule: list_induct2)
    case Nil
    show ?case by (auto simp: vmap2_def)
  next
    case (Cons x xs y ys)
    from Cons.hyps have len: "length xs = length ys" .
    have step: "vmap2 (jnp_map2 f) (x # xs) (y # ys)
          = bindE (jnp_map2 f x y) (\<lambda>v. bindE (vmap2 (jnp_map2 f) xs ys) (\<lambda>vs. Inr (v # vs)))"
      using len by (simp add: vmap2_def)
    show ?case
      unfolding step using Cons.IH
      by (cases e) (auto simp: bindE_eq_Inr jnp_map2_eq_Inr)
  qed
qed

lemma sum_list_map2_axpy:
  "length a = length b \<Longrightarrow>
   sum_list (map2 (\<lambda>l k. l - r * k) a b) = sum_list a - (r::real) * sum_list b"
  by (induction a b rule: list_induct2) (simp_all add: algebra_simps)

lemma concat_map2_axpy:
  "list_all2 (\<lambda>a b. length a = length b) xs ys \<Longrightarrow>
   sum_list (concat (map2 (map2 (\<lambda>l k. l - r * k)) xs ys))
     = sum_list (concat xs) - (r::real) * sum_list (concat ys)
   \<and> length (concat (map2 (map2 (\<lambda>l k. l - r * k)) xs ys)) = length (concat xs)
   \<and> length (concat ys) = length (concat xs)"
proof (induction xs ys rule: list_all2_induct)
  case Nil
  show ?case by simp
next
  case (Cons x xs y ys)
  then show ?case
    using sum_list_map2_axpy [of x y r] by (simp add: algebra_simps)
qed

lemma jnp_mean_axpy:
  "sum_list e = sum_list a - r * sum_list b \<Longrightarrow> length e = length a \<Longrightarrow> length b = length a \<Longrightarrow>
   - jnp_mean e = - jnp_mean a + r * jnp_mean b"
  by (simp add: jnp_mean_def diff_divide_distrib)

lemma map2_fst:
  "length a = length b \<Longrightarrow> map2 (\<lambda>l k. l) a b = a"
  by (induction a b rule: list_induct2) simp_all

lemma map2_map2_fst:
  "list_all2 (\<lambda>a b. length a = length b) xs ys \<Longrightarrow> map2 (map2 (\<lambda>l k. l)) xs ys = xs"
  by (induction xs ys rule: list_all2_induct) (simp_all add: map2_fst)

lemma resnet_loss_fn_Inr:
  "resnet_loss_fn m prm k b r = Inr (loss, aux) \<longleftrightarrow>
     (\<exists>p kl ll. resnet_decode m prm k b = Inr p
        \<and> mvn_kl_divergence p (noise_std b) = Inr kl
        \<and> mvn_log_prob p (noise_std b) (image_field b) = Inr ll
        \<and> list_all2 (\<lambda>a b. length a = length b) ll kl
        \<and> loss = - jnp_mean (concat (map2 (map2 (\<lambda>l k. l - r * k)) ll kl))
        \<and> aux = - jnp_mean (concat ll))"
  unfolding resnet_loss_fn_def Let_def
  by (auto simp: bindE_eq_Inr vmap2_jnp_map2_eq_Inr)

lemma resnet_loss_decomposition:
  assumes "resnet_loss_fn m prm k b r = Inr (loss, aux)"
  shows "\<exists>p kl. resnet_decode m prm k b = Inr p
        \<and> mvn_kl_divergence p (noise_std b) = Inr kl
        \<and> loss = aux + r * jnp_mean (concat kl)"
proof -
  from assms obtain p kl ll where
    p: "resnet_decode m prm k b = Inr p" and
    kl: "mvn_kl_divergence p (noise_std b) = Inr kl" and
    sh: "list_all2 (\<lambda>a b. length a = length b) ll kl" and
    loss: "loss = - jnp_mean (concat (map2 (map2 (\<lambda>l k. l - r * k)) ll kl))" and
    aux: "aux = - jnp_mean (concat ll)"
    unfolding resnet_loss_fn_Inr by blast
  from concat_map2_axpy [OF sh, of r]
  have "loss = aux + r * jnp_mean (concat kl)"
    unfolding loss aux by (intro jnp_mean_axpy) simp_all
  with p kl show ?thesis by blast
qed

lemma sd_loss_fn_Inr:
  "sd_loss_fn m fn prm k b r = Inr (loss, aux) \<longleftrightarrow>
     (\<exists>kpsf q posterior code p ll d.
        vmap2 (jnp_map2 Complex) (kpsf_real b) (kpsf_imag b) = Inr kpsf
        \<and> Autoencoder_apply m prm (image_field b) k = (q, posterior, code)
        \<and> vmap2 (\<lambda>qi ki. Inr (convolve_kpsf m qi ki)) q kpsf = Inr p
        \<and> (if fn = ''Fourier'' then
             loglikelihood_vmap (fourier_whiten m) fn (image_field b) p (ps b)
           else if fn = ''Pixel'' then
             loglikelihood_vmap (fourier_whiten m) fn (image_field b) p
               (map (\<lambda>s. [s]) (noise_std b))
           else Inl NotImplementedError) = Inr ll
        \<and> vmap2 (jnp_map2 (-)) (posterior_log_prob m posterior code)
             (map (map (normal_log_prob 0 1)) code) = Inr d
        \<and> length ll = length d
        \<and> loss = - jnp_mean (map2 (\<lambda>l k. l - r * k) ll (map sum_list d))
        \<and> aux = - jnp_mean ll)"
proof -
  obtain q posterior code where
    ae: "Autoencoder_apply m prm (image_field b) k = (q, posterior, code)"
    by (cases "Autoencoder_apply m prm (image_field b) k") blast
  show ?thesis
    unfolding sd_loss_fn_def Let_def
    by (simp add: ae bindE_eq_Inr jnp_map2_eq_Inr split del: if_split cong: if_cong) blast
qed

lemma length_flat_image [simp]: "length (flat_image v) = n_pixels"
  by (simp add: flat_image_def)

lemma n_pixels_pos [simp]: "0 < n_pixels"
  by (simp add: n_pixels_def)


lemma map2_flat_image:
  "map2 f (flat_image a) (flat_image b) = replicate n_pixels (f a b)"
  by (simp add: flat_image_def zip_replicate)

lemma jnp_mean_replicate: "0 < n \<Longrightarrow> jnp_mean (replicate n c) = c"
  by (simp add: jnp_mean_def sum_list_replicate)

lemma demo_batch_simps [simp]:
  "image_field demo_batch = [flat_image 2]"
  "psf demo_batch = [flat_image 1]"
  "kpsf_real demo_batch = [flat_image 1]"
  "kpsf_imag demo_batch = [flat_image 0]"
  "ps demo_batch = [flat_image 0]"
  "noise_std demo_batch = [1 / 10]"
  by (simp_all add: demo_batch_def)

lemma demo_resnet_decode:
  "resnet_decode demo_resnet (pe, pd) key demo_batch = Inr [flat_image (real pd)]"
  by (simp add: resnet_decode_def demo_resnet_def vmap2_def)

lemma demo_mvn_kl:
  "mvn_kl_divergence [flat_image a] [s] = Inr [replicate n_pixels (normal_kl a s 0 1)]"
  by (simp add: mvn_kl_divergence_def vmap2_def flat_image_def)

lemma demo_mvn_log_prob:
  "mvn_log_prob [flat_image a] [s] [flat_image x]
     = Inr [replicate n_pixels (normal_log_prob a s x)]"
  by (simp add: mvn_log_prob_def vmap3_def jnp_map2_def map2_flat_image)

lemma demo_resnet_loss:
  "resnet_loss_fn demo_resnet (pe, 2) key demo_batch r
     = Inr (- (normal_log_prob 2 (1 / 10) 2 - r * normal_kl 2 (1 / 10) 0 1),
            - normal_log_prob 2 (1 / 10) 2)"
  unfolding resnet_loss_fn_Inr
  by (simp add: demo_resnet_decode demo_mvn_kl demo_mvn_log_prob zip_replicate
      jnp_mean_replicate)

lemma demo_log_prob_value: "normal_log_prob 2 (1 / 10) 2 = ln 10 - ln (2 * pi) / 2"
  by (simp add: normal_log_prob_def ln_div)

lemma demo_kl_value: "normal_kl 2 (1 / 10) 0 1 = ln 10 + 301 / 200"
  by (simp add: normal_kl_def ln_div power2_eq_square)

lemma demo_loss_negative: "- (ln 10 - ln (2 * pi) / 2) < 0"
proof -
  have a: "2 * pi < 100" using pi_less_4 by simp
  have b: "ln (2 * pi) < ln 100"
    using a by (subst ln_less_cancel_iff) simp_all
  have c: "ln (100::real) = ln 10 + ln 10"
    using ln_mult [of 10 10] by simp
  from b c show ?thesis by simp
qed

lemma update_Inr:
  "update tr lf rv p key os b = Inr r \<longleftrightarrow>
     (\<exists>loss ll. lf p key b rv = Inr (loss, ll)
        \<and> r = (loss, ll,
                apply_updates tr p (fst (optimizer_update tr (grad tr (\<lambda>q. lf q key b rv) p) os p)),
                snd (optimizer_update tr (grad tr (\<lambda>q. lf q key b rv) p) os p)))"
  unfolding update_def Let_def
  by (auto simp: bindE_eq_Inr case_prod_beta)

lemma update_Inl:
  "update tr lf rv p key os b = Inl e \<longleftrightarrow> lf p key b rv = Inl e"
  unfolding update_def Let_def
  by (cases "lf p key b rv") (auto simp: case_prod_beta)

lemma logged_save_checkpoint:
  "logged (save_checkpoint ser path s step w)
     = logged w @ [\<lparr>art_name = run_id w @ ''-checkpoint'',
                    art_aliases = [''best'', ''step_'' @ str_nat step],
                    art_files = [(basename path, ser s)]\<rparr>]"
  by (simp add: save_checkpoint_def Let_def)

lemma run_id_save_checkpoint [simp]:
  "run_id (save_checkpoint ser path s step w) = run_id w"
  by (simp add: save_checkpoint_def Let_def)

lemma basename_checkpoint [simp]: "basename ''checkpoint.msgpack'' = ''checkpoint.msgpack''"
  by (simp add: basename_def)

lemma resnet_save_best_fields [simp]:
  "params (resnet_save_best ser step loss st) = params st"
  "losses (resnet_save_best ser step loss st) = losses st"
  "log_liks (resnet_save_best ser step loss st) = log_liks st"
  "best_eval_loss (resnet_save_best ser step loss st) = min loss (best_eval_loss st)"
  by (simp_all add: resnet_save_best_def Let_def)

lemma wandb_resnet_save_best:
  "wandb (resnet_save_best ser step loss st)
     = (if loss < best_eval_loss st \<and> loss < 1
        then save_checkpoint ser ''checkpoint.msgpack'' (params st) step (wandb st)
        else wandb st)"
  by (simp add: resnet_save_best_def Let_def)

lemma sd_save_best_fields [simp]:
  "params (sd_save_best ser step loss st) = params st"
  "losses (sd_save_best ser step loss st) = losses st"
  "log_liks (sd_save_best ser step loss st) = log_liks st"
  "best_eval_loss (sd_save_best ser step loss st) = min loss (best_eval_loss st)"
  by (simp_all add: sd_save_best_def Let_def)

lemma wandb_sd_save_best:
  "wandb (sd_save_best ser step loss st)
     = (if loss < best_eval_loss st
        then save_checkpoint ser ''checkpoint.msgpack'' (params st) step (wandb st)
        else wandb st)"
  by (simp add: sd_save_best_def Let_def)

lemma evaluate_Inr:
  assumes "evaluate tr lf rv step st = Inr st'"
  shows "wandb st' = wandb st \<and> params st' = params st \<and> losses st' = losses st
         \<and> log_liks st' = log_liks st \<and> best_eval_loss st' = best_eval_loss st
         \<and> opt_state st' = opt_state st \<and> dset_pos st' = dset_pos st"
  using assms unfolding evaluate_def
  by (auto simp: bindE_eq_Inr split: option.splits)

lemma train_step_unfold:
  "train_step tr lf sb fl step st =
     (case lf (params st) (snd (split tr (rng st))) (dset tr (dset_pos st)) (reg_value fl) of
        Inl e \<Rightarrow> Inl e
      | Inr (loss, ll) \<Rightarrow>
          if training_steps fl div 50 = 0 then Inl ZeroDivisionError
          else if step mod (training_steps fl div 50) = 0
          then evaluate tr lf (reg_value fl) step (sb step loss (after_update tr lf fl st loss ll))
          else Inr (sb step loss (after_update tr lf fl st loss ll)))"
proof (cases "lf (params st) (snd (split tr (rng st))) (dset tr (dset_pos st)) (reg_value fl)")
  case (Inl e)
  then have "update tr lf (reg_value fl) (params st) (snd (split tr (rng st))) (opt_state st)
               (dset tr (dset_pos st)) = Inl e"
    by (simp add: update_Inl)
  with Inl show ?thesis
    by (simp add: train_step_def Let_def case_prod_beta)
next
  case (Inr r)
  obtain loss ll where r: "r = (loss, ll)" by (cases r)
  have "update tr lf (reg_value fl) (params st) (snd (split tr (rng st))) (opt_state st)
               (dset tr (dset_pos st))
        = Inr (loss, ll,
               apply_updates tr (params st) (fst (optimizer_update tr
                  (grad tr (\<lambda>q. lf q (snd (split tr (rng st))) (dset tr (dset_pos st)) (reg_value fl))
                     (params st)) (opt_state st) (params st))),
               snd (optimizer_update tr
                  (grad tr (\<lambda>q. lf q (snd (split tr (rng st))) (dset tr (dset_pos st)) (reg_value fl))
                     (params st)) (opt_state st) (params st)))"
    using Inr r by (simp add: update_Inr)
  with Inr r show ?thesis
    by (simp add: train_step_def Let_def after_update_def case_prod_beta)
qed

lemma after_update_fields [simp]:
  "wandb (after_update tr lf fl st loss ll) = wandb st"
  "best_eval_loss (after_update tr lf fl st loss ll) = best_eval_loss st"
  "losses (after_update tr lf fl st loss ll) = losses st @ [loss]"
  "log_liks (after_update tr lf fl st loss ll) = log_liks st @ [ll]"
  "params (after_update tr lf fl st loss ll)
     = apply_updates tr (params st)
         (fst (optimizer_update tr
            (grad tr (\<lambda>q. lf q (snd (split tr (rng st))) (dset tr (dset_pos st)) (reg_value fl))
               (params st)) (opt_state st) (params st)))"
  by (simp_all add: after_update_def Let_def)

lemma train_step_Inr:
  assumes "train_step tr lf sb fl step st = Inr st'"
  shows "\<exists>loss ll.
           lf (params st) (snd (split tr (rng st))) (dset tr (dset_pos st)) (reg_value fl)
             = Inr (loss, ll)
         \<and> training_steps fl div 50 \<noteq> 0
         \<and> wandb st' = wandb (sb step loss (after_update tr lf fl st loss ll))
         \<and> params st' = params (sb step loss (after_update tr lf fl st loss ll))
         \<and> losses st' = losses (sb step loss (after_update tr lf fl st loss ll))
         \<and> best_eval_loss st' = best_eval_loss (sb step loss (after_update tr lf fl st loss ll))"
proof (cases "lf (params st) (snd (split tr (rng st))) (dset tr (dset_pos st)) (reg_value fl)")
  case (Inl e)
  with assms show ?thesis by (simp add: train_step_unfold)
next
  case (Inr r)
  obtain loss ll where r: "r = (loss, ll)" by (cases r)
  let ?st2 = "sb step loss (after_update tr lf fl st loss ll)"
  from assms Inr r have nz: "training_steps fl div 50 \<noteq> 0"
    by (auto simp: train_step_unfold split: if_splits)
  from assms Inr r nz have
    "evaluate tr lf (reg_value fl) step ?st2 = Inr st' \<or> st' = ?st2"
    by (auto simp: train_step_unfold split: if_splits)
  then have "wandb st' = wandb ?st2 \<and> params st' = params ?st2 \<and> losses st' = losses ?st2
             \<and> best_eval_loss st' = best_eval_loss ?st2"
    using evaluate_Inr by blast
  with Inr r nz show ?thesis by blast
qed

lemma train_step_small_horizon:
  assumes "training_steps fl < 50"
  shows "train_step tr lf sb fl step st =
           (case lf (params st) (snd (split tr (rng st))) (dset tr (dset_pos st)) (reg_value fl) of
              Inl e \<Rightarrow> Inl e | Inr v \<Rightarrow> Inl ZeroDivisionError)"
  using assms by (simp add: train_step_unfold split: sum.splits)

lemma train_loop_first_fails:
  assumes "body 1 st = Inl e" and "0 < n"
  shows "train_loop body [1..<Suc n] st = Inl e"
proof -
  from assms(2) have "[1..<Suc n] = 1 # [Suc 1..<Suc n]"
    by (intro upt_conv_Cons) simp
  then show ?thesis
    using assms(1) by (simp only: train_loop.simps bindE_Inl)
qed

lemma resnet_train_step_logged:
  assumes "resnet_train_step tr m fl step st = Inr st'"
  shows "logged (wandb st') =
           (if last (losses st') < best_eval_loss st \<and> last (losses st') < 1
            then logged (wandb st) @
                   [\<lparr>art_name = run_id (wandb st) @ ''-checkpoint'',
                     art_aliases = [''best'', ''step_'' @ str_nat step],
                     art_files = [(''checkpoint.msgpack'', serialize tr (params st'))]\<rparr>]
            else logged (wandb st))"
proof -
  from assms obtain loss ll where
    w: "wandb st' = wandb (resnet_save_best (serialize tr) step loss
          (after_update tr (resnet_loss_fn m) fl st loss ll))" and
    p: "params st' = params (resnet_save_best (serialize tr) step loss
          (after_update tr (resnet_loss_fn m) fl st loss ll))" and
    l: "losses st' = losses (resnet_save_best (serialize tr) step loss
          (after_update tr (resnet_loss_fn m) fl st loss ll))"
    unfolding resnet_train_step_def using train_step_Inr by blast
  from l have "last (losses st') = loss" by simp
  then show ?thesis
    unfolding w by (simp add: wandb_resnet_save_best logged_save_checkpoint p)
qed

lemma sd_train_step_logged:
  assumes "sd_train_step tr m fl step st = Inr st'"
  shows "logged (wandb st') =
           (if last (losses st') < best_eval_loss st
            then logged (wandb st) @
                   [\<lparr>art_name = run_id (wandb st) @ ''-checkpoint'',
                     art_aliases = [''best'', ''step_'' @ str_nat step],
                     art_files = [(''checkpoint.msgpack'', serialize tr (params st'))]\<rparr>]
            else logged (wandb st))"
proof -
  from assms obtain loss ll where
    w: "wandb st' = wandb (sd_save_best (serialize tr) step loss
          (after_update tr (sd_loss_fn m (noise fl)) fl st loss ll))" and
    p: "params st' = params (sd_save_best (serialize tr) step loss
          (after_update tr (sd_loss_fn m (noise fl)) fl st loss ll))" and
    l: "losses st' = losses (sd_save_best (serialize tr) step loss
          (after_update tr (sd_loss_fn m (noise fl)) fl st loss ll))"
    unfolding sd_train_step_def using train_step_Inr by blast
  from l have "last (losses st') = loss" by simp
  then show ?thesis
    unfolding w by (simp add: wandb_sd_save_best logged_save_checkpoint p)
qed

lemma upt_1_6: "[Suc 0..<6] = [1, 2, 3, 4, 5]"
  by code_simp

lemma initial_state_fields [simp]:
  "best_eval_loss (initial_state tr key p) = 1000000"
  "logged (wandb (initial_state tr key p)) = []"
  "run_id (wandb (initial_state tr key p)) = wandb_run_id tr"
  "params (initial_state tr key p) = p"
  "losses (initial_state tr key p) = []"
  "log_liks (initial_state tr key p) = []"
  "rng (initial_state tr key p) = key"
  "dset_pos (initial_state tr key p) = 1"
  "opt_state (initial_state tr key p) = optimizer_init tr p"
  by (simp_all add: initial_state_def)

lemma use_artifact_last:
  "logged w = vs @ [a] \<Longrightarrow> art_name a = name \<Longrightarrow> alias \<in> set (art_aliases a) \<Longrightarrow>
   use_artifact name alias w = Some a"
  by (simp add: use_artifact_def)

lemma use_artifact_none: "logged w = [] \<Longrightarrow> use_artifact name alias w = None"
  by (simp add: use_artifact_def)

lemma resnet_trace:
  "map art_aliases (logged (wandb (foldl (\<lambda>s (step, loss). resnet_save_best ser step loss s)
       (initial_state tr key p) (zip [1..<6] [5, 2, 3, 0.8, 0.9]))))
     = [[''best'', ''step_4'']]"
  by (simp add: upt_1_6 wandb_resnet_save_best logged_save_checkpoint)

lemma sd_trace:
  "map art_aliases (logged (wandb (foldl (\<lambda>s (step, loss). sd_save_best ser step loss s)
       (initial_state tr key p) (zip [1..<6] [5, 2, 3, 0.8, 0.9]))))
     = [[''best'', ''step_1''], [''best'', ''step_2''], [''best'', ''step_4'']]"
  by (simp add: upt_1_6 wandb_sd_save_best logged_save_checkpoint)

lemma resnet_trace_best:
  "map_option art_aliases (use_artifact (wandb_run_id tr @ ''-checkpoint'') ''best''
     (wandb (foldl (\<lambda>s (step, loss). resnet_save_best ser step loss s)
       (initial_state tr key p) (zip [1..<6] [5, 2, 3, 0.8, 0.9]))))
     = Some [''best'', ''step_4'']"
  by (simp add: upt_1_6 wandb_resnet_save_best logged_save_checkpoint use_artifact_def)

lemma sd_trace_best:
  "map_option art_aliases (use_artifact (wandb_run_id tr @ ''-checkpoint'') ''best''
     (wandb (foldl (\<lambda>s (step, loss). sd_save_best ser step loss s)
       (initial_state tr key p) (zip [1..<6] [5, 2, 3, 0.8, 0.9]))))
     = Some [''best'', ''step_4'']"
  by (simp add: upt_1_6 wandb_sd_save_best logged_save_checkpoint use_artifact_def)

lemma demo_sd_loss:
  "sd_loss_fn demo_sd ''Pixel'' p key demo_batch r = Inr (3 * r, 0)"
proof -
  have k: "vmap2 (jnp_map2 Complex) [flat_image 1] [flat_image 0]
             = Inr [replicate n_pixels (Complex 1 0)]"
    by (simp add: vmap2_def jnp_map2_def map2_flat_image)
  have ae: "Autoencoder_apply demo_sd p [flat_image 2] key = ([flat_image 2], (), [[0]])"
    by (simp add: demo_sd_def)
  have c: "vmap2 (\<lambda>qi ki. Inr (convolve_kpsf demo_sd qi ki)) [flat_image 2]
             [replicate n_pixels (Complex 1 0)] = Inr [flat_image 2]"
    by (simp add: vmap2_def demo_sd_def)
  have l: "loglikelihood_vmap (fourier_whiten demo_sd) ''Pixel'' [flat_image 2] [flat_image 2]
             [[1 / 10]] = Inr [0]"
    using sum_list_map2_diff_self [of "flat_image 2"]
    by (simp add: loglikelihood_vmap_def vmap3_def loglikelihood_fn_Pixel)
  have d: "vmap2 (jnp_map2 (-)) (posterior_log_prob demo_sd () [[0]])
             (map (map (normal_log_prob 0 1)) [[0]]) = Inr [[3]]"
    by (simp add: vmap2_def jnp_map2_def demo_sd_def)
  have e1: "3 * r = - jnp_mean (map2 (\<lambda>l k. l - r * k) [0] (map sum_list [[3]]))"
    by (simp add: jnp_mean_def)
  have e2: "(0::real) = - jnp_mean [0]"
    by (simp add: jnp_mean_def)
  have e3: "length [0::real] = length [[3::real]]"
    by simp
  have l': "(if ''Pixel'' = ''Fourier'' then
             loglikelihood_vmap (fourier_whiten demo_sd) ''Pixel'' (image_field demo_batch)
               [flat_image 2] (ps demo_batch)
           else if ''Pixel'' = ''Pixel'' then
             loglikelihood_vmap (fourier_whiten demo_sd) ''Pixel'' (image_field demo_batch)
               [flat_image 2] (map (\<lambda>s. [s]) (noise_std demo_batch))
           else Inl NotImplementedError) = Inr [0]"
    using l by simp
  show ?thesis
    unfolding sd_loss_fn_Inr
    apply (rule exI [of _ "[replicate n_pixels (Complex 1 0)]"])
    apply (rule exI [of _ "[flat_image 2]"])
    apply (rule exI [of _ "()"])
    apply (rule exI [of _ "[[0]]"])
    apply (rule exI [of _ "[flat_image 2]"])
    apply (rule exI [of _ "[0]"])
    apply (rule exI [of _ "[[3]]"])
    apply (intro conjI)
           apply (simp add: k)
          apply (simp add: ae)
         apply (rule c)
        apply (rule l')
       apply (rule d)
      apply (rule e3)
     apply (rule e1)
    apply (rule e2)
    done
qed


lemma demo_resnet_setup:
  "resnet_setup demo_resnet_trainer demo_flags = Inr (initial_state demo_resnet_trainer 1 (0, 2))"
  by (simp add: resnet_setup_def demo_flags_def get_activation_fn_def activation_functions_def
      demo_resnet_trainer_def Let_def)

lemma demo_sd_trainer_simps [simp]:
  "split demo_sd_trainer key = (Suc key, key)"
  "dset demo_sd_trainer i = demo_batch"
  "test_dset demo_sd_trainer = [demo_batch]"
  "optimizer_init demo_sd_trainer p = 0"
  "grad demo_sd_trainer f p = 1"
  "optimizer_update demo_sd_trainer g s p = (g, Suc s)"
  "apply_updates demo_sd_trainer p u = p + u"
  "serialize demo_sd_trainer p = [of_nat p]"
  "wandb_run_id demo_sd_trainer = ''run0''"
  by (simp_all add: demo_sd_trainer_def)

lemma demo_resnet_trainer_simps [simp]:
  "split demo_resnet_trainer key = (Suc key, key)"
  "dset demo_resnet_trainer i = demo_batch"
  "test_dset demo_resnet_trainer = [demo_batch]"
  "optimizer_init demo_resnet_trainer q = 0"
  "grad demo_resnet_trainer f q = (0, 1)"
  "optimizer_update demo_resnet_trainer g s q = (g, Suc s)"
  "apply_updates demo_resnet_trainer q u = (fst q + fst u, snd q + snd u)"
  "serialize demo_resnet_trainer q = [of_nat (fst q), of_nat (snd q)]"
  "wandb_run_id demo_resnet_trainer = ''run0''"
  by (simp_all add: demo_resnet_trainer_def)

lemma demo_flags_simps [simp]:
  "training_steps demo_flags = 100"
  "reg_value demo_flags = 1 / 100"
  "noise demo_flags = ''Pixel''"
  by (simp_all add: demo_flags_def)

text \<open>The first step of the demo runs.\<close>

lemma demo_sd_step1:
  "sd_train_step demo_sd_trainer demo_sd demo_flags 1 (initial_state demo_sd_trainer 0 7)
     = Inr (sd_save_best (serialize demo_sd_trainer) 1 (3 / 100)
              (after_update demo_sd_trainer (sd_loss_fn demo_sd ''Pixel'') demo_flags
                 (initial_state demo_sd_trainer 0 7) (3 / 100) 0))"
  by (simp add: sd_train_step_def train_step_unfold demo_sd_loss)

lemma demo_resnet_step1:
  "resnet_train_step demo_resnet_trainer demo_resnet (demo_flags\<lparr>reg_value := 0\<rparr>) 1
       (initial_state demo_resnet_trainer 1 (0, 2))
     = Inr (resnet_save_best (serialize demo_resnet_trainer) 1 (- (ln 10 - ln (2 * pi) / 2))
              (after_update demo_resnet_trainer (resnet_loss_fn demo_resnet)
                 (demo_flags\<lparr>reg_value := 0\<rparr>)
                 (initial_state demo_resnet_trainer 1 (0, 2))
                 (- (ln 10 - ln (2 * pi) / 2)) (- (ln 10 - ln (2 * pi) / 2))))"
  by (simp add: resnet_train_step_def train_step_unfold demo_resnet_loss demo_log_prob_value)

text \<open>
  Claim C4, amended. A step of VAE\_Resnet\_train\_C.py that completes logs a checkpoint
  version, tagged \<open>best\<close> and \<open>step_N\<close>, exactly when its loss is below the running best
  and below \<open>1\<close>. A step of VAE\_SD\_C.py logs one exactly when its loss is below the
  running best: it has no threshold. On the losses \<open>5.0, 2.0, 3.0, 0.8, 0.9\<close> of steps
  \<open>1\<close> to \<open>5\<close>, starting from the sentinel \<open>1e6\<close>, the first script saves once, at step
  \<open>4\<close>, the second three times, at steps \<open>1\<close>, \<open>2\<close> and \<open>4\<close>; in both the alias \<open>best\<close>
  then resolves to the version of step \<open>4\<close>.
\<close>

theorem best_checkpoint_policy:
  "(resnet_train_step tr m fl step st = Inr st' \<longrightarrow>
      logged (wandb st') =
        (if last (losses st') < best_eval_loss st \<and> last (losses st') < 1
         then logged (wandb st) @
                [\<lparr>art_name = run_id (wandb st) @ ''-checkpoint'',
                  art_aliases = [''best'', ''step_'' @ str_nat step],
                  art_files = [(''checkpoint.msgpack'', serialize tr (params st'))]\<rparr>]
         else logged (wandb st)))
   \<and> (sd_train_step tr2 m2 fl2 step2 st2 = Inr st2' \<longrightarrow>
      logged (wandb st2') =
        (if last (losses st2') < best_eval_loss st2
         then logged (wandb st2) @
                [\<lparr>art_name = run_id (wandb st2) @ ''-checkpoint'',
                  art_aliases = [''best'', ''step_'' @ str_nat step2],
                  art_files = [(''checkpoint.msgpack'', serialize tr2 (params st2'))]\<rparr>]
         else logged (wandb st2)))
   \<and> map art_aliases (logged (wandb (foldl (\<lambda>s (step, loss). resnet_save_best ser step loss s)
         (initial_state tr3 key p) (zip [1..<6] [5, 2, 3, 0.8, 0.9]))))
       = [[''best'', ''step_4'']]
   \<and> map art_aliases (logged (wandb (foldl (\<lambda>s (step, loss). sd_save_best ser step loss s)
         (initial_state tr3 key p) (zip [1..<6] [5, 2, 3, 0.8, 0.9]))))
       = [[''best'', ''step_1''], [''best'', ''step_2''], [''best'', ''step_4'']]
   \<and> map_option art_aliases (use_artifact (wandb_run_id tr3 @ ''-checkpoint'') ''best''
         (wandb (foldl (\<lambda>s (step, loss). resnet_save_best ser step loss s)
           (initial_state tr3 key p) (zip [1..<6] [5, 2, 3, 0.8, 0.9]))))
       = Some [''best'', ''step_4'']
   \<and> map_option art_aliases (use_artifact (wandb_run_id tr3 @ ''-checkpoint'') ''best''
         (wandb (foldl (\<lambda>s (step, loss). sd_save_best ser step loss s)
           (initial_state tr3 key p) (zip [1..<6] [5, 2, 3, 0.8, 0.9]))))
       = Some [''best'', ''step_4'']"
  using resnet_train_step_logged [of tr m fl step st st']
        sd_train_step_logged [of tr2 m2 fl2 step2 st2 st2']
        resnet_trace [of ser tr3 key p] sd_trace [of ser tr3 key p]
        resnet_trace_best [of tr3 ser key p] sd_trace_best [of tr3 ser key p]
  by blast

lemma demo_resnet_step1_fields:
  "last (losses (resnet_save_best (serialize demo_resnet_trainer) 1 (- (ln 10 - ln (2 * pi) / 2))
              (after_update demo_resnet_trainer (resnet_loss_fn demo_resnet)
                 (demo_flags\<lparr>reg_value := 0\<rparr>)
                 (initial_state demo_resnet_trainer 1 (0, 2))
                 (- (ln 10 - ln (2 * pi) / 2)) (- (ln 10 - ln (2 * pi) / 2)))))
     = - (ln 10 - ln (2 * pi) / 2)"
  "params (resnet_save_best (serialize demo_resnet_trainer) 1 (- (ln 10 - ln (2 * pi) / 2))
              (after_update demo_resnet_trainer (resnet_loss_fn demo_resnet)
                 (demo_flags\<lparr>reg_value := 0\<rparr>)
                 (initial_state demo_resnet_trainer 1 (0, 2))
                 (- (ln 10 - ln (2 * pi) / 2)) (- (ln 10 - ln (2 * pi) / 2))))
     = (0, 3)"
  by simp_all

lemma demo_sd_step1_fields:
  "last (losses (sd_save_best (serialize demo_sd_trainer) 1 (3 / 100)
              (after_update demo_sd_trainer (sd_loss_fn demo_sd ''Pixel'') demo_flags
                 (initial_state demo_sd_trainer 0 7) (3 / 100) 0))) = 3 / 100"
  "params (sd_save_best (serialize demo_sd_trainer) 1 (3 / 100)
              (after_update demo_sd_trainer (sd_loss_fn demo_sd ''Pixel'') demo_flags
                 (initial_state demo_sd_trainer 0 7) (3 / 100) 0)) = 8"
  by simp_all

theorem best_checkpoint_policy_witness:
  "(\<exists>st'. resnet_train_step demo_resnet_trainer demo_resnet (demo_flags\<lparr>reg_value := 0\<rparr>) 1
             (initial_state demo_resnet_trainer 1 (0, 2)) = Inr st'
        \<and> logged (wandb st') =
             [\<lparr>art_name = ''run0-checkpoint'', art_aliases = [''best'', ''step_1''],
               art_files = [(''checkpoint.msgpack'', [0, 3])]\<rparr>])
   \<and> (\<exists>st'. sd_train_step demo_sd_trainer demo_sd demo_flags 1
             (initial_state demo_sd_trainer 0 7) = Inr st'
        \<and> logged (wandb st') =
             [\<lparr>art_name = ''run0-checkpoint'', art_aliases = [''best'', ''step_1''],
               art_files = [(''checkpoint.msgpack'', [8])]\<rparr>])"
proof -
  define L :: real where "L = - (ln 10 - ln (2 * pi) / 2)"
  define S0 where "S0 = initial_state demo_resnet_trainer 1 (0, 2)"
  define S1 where "S1 = resnet_save_best (serialize demo_resnet_trainer) 1 L
              (after_update demo_resnet_trainer (resnet_loss_fn demo_resnet)
                 (demo_flags\<lparr>reg_value := 0\<rparr>) S0 L L)"
  define T0 where "T0 = initial_state demo_sd_trainer 0 7"
  define T1 where "T1 = sd_save_best (serialize demo_sd_trainer) 1 (3 / 100)
              (after_update demo_sd_trainer (sd_loss_fn demo_sd ''Pixel'') demo_flags
                 T0 (3 / 100) 0)"
  have neg: "L < 1000000" "L < 1"
    using demo_loss_negative unfolding L_def by linarith+
  have h1: "resnet_train_step demo_resnet_trainer demo_resnet (demo_flags\<lparr>reg_value := 0\<rparr>) 1 S0
              = Inr S1"
    unfolding S1_def S0_def L_def by (rule demo_resnet_step1)
  have h2: "sd_train_step demo_sd_trainer demo_sd demo_flags 1 T0 = Inr T1"
    unfolding T1_def T0_def by (rule demo_sd_step1)
  have f1: "last (losses S1) = L" "params S1 = (0, 3)" "best_eval_loss S0 = 1000000"
    "logged (wandb S0) = []" "run_id (wandb S0) = ''run0''"
    unfolding S1_def S0_def by simp_all
  have f2: "last (losses T1) = 3 / 100" "params T1 = 8" "best_eval_loss T0 = 1000000"
    "logged (wandb T0) = []" "run_id (wandb T0) = ''run0''"
    unfolding T1_def T0_def by simp_all
  note t = best_checkpoint_policy
      [of demo_resnet_trainer demo_resnet "demo_flags\<lparr>reg_value := 0\<rparr>" 1 S0 S1
          demo_sd_trainer demo_sd demo_flags 1 T0 T1]
  have "logged (wandb S1) =
          (if last (losses S1) < best_eval_loss S0 \<and> last (losses S1) < 1
           then logged (wandb S0) @
                [\<lparr>art_name = run_id (wandb S0) @ ''-checkpoint'',
                  art_aliases = [''best'', ''step_'' @ str_nat 1],
                  art_files = [(''checkpoint.msgpack'', serialize demo_resnet_trainer (params S1))]\<rparr>]
           else logged (wandb S0))"
    and "logged (wandb T1) =
          (if last (losses T1) < best_eval_loss T0
           then logged (wandb T0) @
                [\<lparr>art_name = run_id (wandb T0) @ ''-checkpoint'',
                  art_aliases = [''best'', ''step_'' @ str_nat 1],
                  art_files = [(''checkpoint.msgpack'', serialize demo_sd_trainer (params T1))]\<rparr>]
           else logged (wandb T0))"
    using t [THEN conjunct1, THEN mp, OF h1]
          t [THEN conjunct2, THEN conjunct1, THEN mp, OF h2] by this+
  then have "logged (wandb S1) =
             [\<lparr>art_name = ''run0-checkpoint'', art_aliases = [''best'', ''step_1''],
               art_files = [(''checkpoint.msgpack'', [0, 3])]\<rparr>]"
    and "logged (wandb T1) =
             [\<lparr>art_name = ''run0-checkpoint'', art_aliases = [''best'', ''step_1''],
               art_files = [(''checkpoint.msgpack'', [8])]\<rparr>]"
    using neg by (simp_all add: f1 f2)
  with h1 h2 show ?thesis
    unfolding S0_def T0_def by blast
qed

text \<open>
  Counterexample to claim C4 as stated: in VAE\_SD\_C.py the trace gives three saves, and
  a first loss of \<open>5.0\<close>, which is not below \<open>1\<close>, is saved.
\<close>

theorem sd_saves_without_threshold:
  "length (logged (wandb (foldl
       (\<lambda>s (step, loss). sd_save_best (serialize demo_sd_trainer) step loss s)
       (initial_state demo_sd_trainer 0 7) (zip [1..<6] [5, 2, 3, 0.8, 0.9])))) = 3
   \<and> map art_aliases (logged (wandb
        (sd_save_best (serialize demo_sd_trainer) 1 5 (initial_state demo_sd_trainer 0 7))))
       = [[''best'', ''step_1'']]"
  by (simp add: upt_1_6 wandb_sd_save_best logged_save_checkpoint)

lemma sd_loss_decomposition:
  assumes "sd_loss_fn m fn prm k b r = Inr (loss, aux)"
  shows "\<exists>q posterior code d.
           Autoencoder_apply m prm (image_field b) k = (q, posterior, code)
         \<and> vmap2 (jnp_map2 (-)) (posterior_log_prob m posterior code)
              (map (map (normal_log_prob 0 1)) code) = Inr d
         \<and> loss = aux + r * jnp_mean (map sum_list d)"
proof -
  from assms obtain q posterior code ll d where
    ae: "Autoencoder_apply m prm (image_field b) k = (q, posterior, code)" and
    d: "vmap2 (jnp_map2 (-)) (posterior_log_prob m posterior code)
             (map (map (normal_log_prob 0 1)) code) = Inr d" and
    len: "length ll = length d" and
    loss: "loss = - jnp_mean (map2 (\<lambda>l k. l - r * k) ll (map sum_list d))" and
    aux: "aux = - jnp_mean ll"
    unfolding sd_loss_fn_Inr by blast
  have "loss = aux + r * jnp_mean (map sum_list d)"
    unfolding loss aux using len
    by (intro jnp_mean_axpy) (simp_all add: sum_list_map2_axpy)
  with ae d show ?thesis by blast
qed

lemma resnet_loss_ignores_posterior:
  assumes "sample m2 (Encoder_apply m2 pe (image_field b)) k
             = sample m (Encoder_apply m pe (image_field b)) k"
    and "Decoder_apply m2 = Decoder_apply m" and "convolve m2 = convolve m"
  shows "resnet_loss_fn m2 (pe, pd) k b reg = resnet_loss_fn m (pe, pd) k b reg"
proof -
  have "resnet_decode m2 (pe, pd) k b = resnet_decode m (pe, pd) k b"
    using assms by (simp add: resnet_decode_def Let_def)
  then show ?thesis by (simp add: resnet_loss_fn_def)
qed

text \<open>
  Claim C3. The claim says that the KL term scaled by \<open>reg_term\<close> is the divergence of
  the encoder's posterior from the zero-mean prior. In VAE\_Resnet\_train\_C.py the loss
  is \<open>aux + reg_term * mean kl\<close> where \<open>kl\<close> is the divergence of the decoded observation
  distribution \<open>N(p, std)\<close> from \<open>N(0, 1)\<close>; the loss is the same for any two encoders
  whose posteriors yield the same sample, so it does not depend on the posterior
  distribution. In VAE\_SD\_C.py the term is the sum over the latent of the posterior's
  log-density minus the prior's, at the sampled code.
\<close>

theorem resnet_kl_is_of_decoded_observation:
  "(resnet_loss_fn m prm k b reg = Inr (loss, aux) \<longrightarrow>
      (\<exists>p kl. resnet_decode m prm k b = Inr p
         \<and> mvn_kl_divergence p (noise_std b) = Inr kl
         \<and> loss = aux + reg * jnp_mean (concat kl)))
   \<and> (sample m2 (Encoder_apply m2 pe (image_field b)) k
          = sample m (Encoder_apply m pe (image_field b)) k
        \<and> Decoder_apply m2 = Decoder_apply m \<and> convolve m2 = convolve m \<longrightarrow>
      resnet_loss_fn m2 (pe, pd) k b reg = resnet_loss_fn m (pe, pd) k b reg)
   \<and> (sd_loss_fn m3 fn prm3 k3 b3 reg = Inr (loss3, aux3) \<longrightarrow>
      (\<exists>q posterior code d.
           Autoencoder_apply m3 prm3 (image_field b3) k3 = (q, posterior, code)
         \<and> vmap2 (jnp_map2 (-)) (posterior_log_prob m3 posterior code)
              (map (map (normal_log_prob 0 1)) code) = Inr d
         \<and> loss3 = aux3 + reg * jnp_mean (map sum_list d)))"
proof (intro conjI impI)
  assume "resnet_loss_fn m prm k b reg = Inr (loss, aux)"
  then show "\<exists>p kl. resnet_decode m prm k b = Inr p
         \<and> mvn_kl_divergence p (noise_std b) = Inr kl
         \<and> loss = aux + reg * jnp_mean (concat kl)"
    by (rule resnet_loss_decomposition)
next
  assume a: "sample m2 (Encoder_apply m2 pe (image_field b)) k
          = sample m (Encoder_apply m pe (image_field b)) k
        \<and> Decoder_apply m2 = Decoder_apply m \<and> convolve m2 = convolve m"
  show "resnet_loss_fn m2 (pe, pd) k b reg = resnet_loss_fn m (pe, pd) k b reg"
    using a by (intro resnet_loss_ignores_posterior) simp_all
next
  assume "sd_loss_fn m3 fn prm3 k3 b3 reg = Inr (loss3, aux3)"
  then show "\<exists>q posterior code d.
           Autoencoder_apply m3 prm3 (image_field b3) k3 = (q, posterior, code)
         \<and> vmap2 (jnp_map2 (-)) (posterior_log_prob m3 posterior code)
              (map (map (normal_log_prob 0 1)) code) = Inr d
         \<and> loss3 = aux3 + reg * jnp_mean (map sum_list d)"
    by (rule sd_loss_decomposition)
qed

theorem resnet_kl_is_of_decoded_observation_witness:
  "Encoder_apply demo_resnet 0 (image_field demo_batch) = (0, 1)
   \<and> resnet_loss_fn demo_resnet (0, 2) 0 demo_batch (1 / 100)
       = Inr (ln (2 * pi) / 2 - ln 10 + 1 / 100 * (ln 10 + 301 / 200), ln (2 * pi) / 2 - ln 10)
   \<and> mvn_kl_divergence [flat_image 2] (noise_std demo_batch)
       = Inr [replicate n_pixels (ln 10 + 301 / 200)]
   \<and> resnet_loss_fn (demo_resnet\<lparr>Encoder_apply := \<lambda>pe x. (0, 9)\<rparr>) (0, 2) 0 demo_batch (1 / 100)
       = resnet_loss_fn demo_resnet (0, 2) 0 demo_batch (1 / 100)
   \<and> sd_loss_fn demo_sd ''Pixel'' 7 0 demo_batch (1 / 100) = Inr (0 + 1 / 100 * 3, 0)"
proof -
  note t = resnet_kl_is_of_decoded_observation
    [of demo_resnet "(0, 2)" 0 demo_batch "1 / 100"
        "ln (2 * pi) / 2 - ln 10 + 1 / 100 * (ln 10 + 301 / 200)" "ln (2 * pi) / 2 - ln 10"
        "demo_resnet\<lparr>Encoder_apply := \<lambda>pe x. (0, 9)\<rparr>" 0 2
        demo_sd "''Pixel''" 7 0 demo_batch "0 + 1 / 100 * 3" 0]
  have e: "Encoder_apply demo_resnet 0 (image_field demo_batch) = (0, 1)"
    by (simp add: demo_resnet_def)
  have h1: "resnet_loss_fn demo_resnet (0, 2) 0 demo_batch (1 / 100)
       = Inr (ln (2 * pi) / 2 - ln 10 + 1 / 100 * (ln 10 + 301 / 200), ln (2 * pi) / 2 - ln 10)"
    by (simp add: demo_resnet_loss demo_log_prob_value demo_kl_value)
  have kl: "mvn_kl_divergence [flat_image 2] (noise_std demo_batch)
       = Inr [replicate n_pixels (ln 10 + 301 / 200)]"
    by (simp add: demo_mvn_kl demo_kl_value)
  have h2: "sample (demo_resnet\<lparr>Encoder_apply := \<lambda>pe x. (0, 9)\<rparr>)
              (Encoder_apply (demo_resnet\<lparr>Encoder_apply := \<lambda>pe x. (0, 9)\<rparr>) 0
                 (image_field demo_batch)) 0
          = sample demo_resnet (Encoder_apply demo_resnet 0 (image_field demo_batch)) 0
        \<and> Decoder_apply (demo_resnet\<lparr>Encoder_apply := \<lambda>pe x. (0, 9)\<rparr>) = Decoder_apply demo_resnet
        \<and> convolve (demo_resnet\<lparr>Encoder_apply := \<lambda>pe x. (0, 9)\<rparr>) = convolve demo_resnet"
    by (simp add: demo_resnet_def)
  have h3: "sd_loss_fn demo_sd ''Pixel'' 7 0 demo_batch (1 / 100) = Inr (0 + 1 / 100 * 3, 0)"
    by (simp add: demo_sd_loss)
  from e h1 kl t [THEN conjunct2, THEN conjunct1, THEN mp, OF h2] h3
  show ?thesis by blast
qed

lemma resnet_step_saved:
  assumes "resnet_train_step tr m fl step st = Inr st'"
    and "logged (wandb st') \<noteq> logged (wandb st)"
  shows "\<exists>loss ll.
           resnet_loss_fn m (params st) (snd (split tr (rng st))) (dset tr (dset_pos st))
             (reg_value fl) = Inr (loss, ll)
         \<and> best_eval_loss st' = loss
         \<and> art_files (last (logged (wandb st')))
             = [(''checkpoint.msgpack'', serialize tr (apply_updates tr (params st)
                  (fst (optimizer_update tr
                     (grad tr (\<lambda>q. resnet_loss_fn m q (snd (split tr (rng st)))
                        (dset tr (dset_pos st)) (reg_value fl)) (params st))
                     (opt_state st) (params st)))))]"
proof -
  from assms(1) obtain loss ll where
    lf: "resnet_loss_fn m (params st) (snd (split tr (rng st))) (dset tr (dset_pos st))
           (reg_value fl) = Inr (loss, ll)" and
    w: "wandb st' = wandb (resnet_save_best (serialize tr) step loss
          (after_update tr (resnet_loss_fn m) fl st loss ll))" and
    b: "best_eval_loss st' = best_eval_loss (resnet_save_best (serialize tr) step loss
          (after_update tr (resnet_loss_fn m) fl st loss ll))"
    unfolding resnet_train_step_def using train_step_Inr by blast
  from assms(2) have c: "loss < best_eval_loss st \<and> loss < 1"
    unfolding w by (auto simp: wandb_resnet_save_best split: if_splits)
  from c have "best_eval_loss st' = loss" unfolding b by simp
  moreover from c have "art_files (last (logged (wandb st')))
      = [(''checkpoint.msgpack'', serialize tr (apply_updates tr (params st)
                  (fst (optimizer_update tr
                     (grad tr (\<lambda>q. resnet_loss_fn m q (snd (split tr (rng st)))
                        (dset tr (dset_pos st)) (reg_value fl)) (params st))
                     (opt_state st) (params st)))))]"
    unfolding w by (simp add: wandb_resnet_save_best logged_save_checkpoint)
  ultimately show ?thesis using lf by blast
qed

lemma sd_step_saved:
  assumes "sd_train_step tr m fl step st = Inr st'"
    and "logged (wandb st') \<noteq> logged (wandb st)"
  shows "\<exists>loss ll.
           sd_loss_fn m (noise fl) (params st) (snd (split tr (rng st))) (dset tr (dset_pos st))
             (reg_value fl) = Inr (loss, ll)
         \<and> best_eval_loss st' = loss
         \<and> art_files (last (logged (wandb st')))
             = [(''checkpoint.msgpack'', serialize tr (apply_updates tr (params st)
                  (fst (optimizer_update tr
                     (grad tr (\<lambda>q. sd_loss_fn m (noise fl) q (snd (split tr (rng st)))
                        (dset tr (dset_pos st)) (reg_value fl)) (params st))
                     (opt_state st) (params st)))))]"
proof -
  from assms(1) obtain loss ll where
    lf: "sd_loss_fn m (noise fl) (params st) (snd (split tr (rng st))) (dset tr (dset_pos st))
           (reg_value fl) = Inr (loss, ll)" and
    w: "wandb st' = wandb (sd_save_best (serialize tr) step loss
          (after_update tr (sd_loss_fn m (noise fl)) fl st loss ll))" and
    b: "best_eval_loss st' = best_eval_loss (sd_save_best (serialize tr) step loss
          (after_update tr (sd_loss_fn m (noise fl)) fl st loss ll))"
    unfolding sd_train_step_def using train_step_Inr by blast
  from assms(2) have c: "loss < best_eval_loss st"
    unfolding w by (auto simp: wandb_sd_save_best split: if_splits)
  from c have "best_eval_loss st' = loss" unfolding b by simp
  moreover from c have "art_files (last (logged (wandb st')))
      = [(''checkpoint.msgpack'', serialize tr (apply_updates tr (params st)
                  (fst (optimizer_update tr
                     (grad tr (\<lambda>q. sd_loss_fn m (noise fl) q (snd (split tr (rng st)))
                        (dset tr (dset_pos st)) (reg_value fl)) (params st))
                     (opt_state st) (params st)))))]"
    unfolding w by (simp add: wandb_sd_save_best logged_save_checkpoint)
  ultimately show ?thesis using lf by blast
qed

text \<open>
  Claim C10. In either script, when a step completes and logs a checkpoint version, the
  loss that became the running best is the value of \<open>loss_fn\<close> at the parameters the
  step started with, and the file of the logged version is the serialization of
  \<^verbatim>\<open>optax.apply_updates(params, updates)\<close>, the parameters after that step's update.
\<close>

theorem persisted_params_are_post_update:
  "(resnet_train_step tr m fl step st = Inr st' \<and> logged (wandb st') \<noteq> logged (wandb st) \<longrightarrow>
      (\<exists>loss ll.
           resnet_loss_fn m (params st) (snd (split tr (rng st))) (dset tr (dset_pos st))
             (reg_value fl) = Inr (loss, ll)
         \<and> best_eval_loss st' = loss
         \<and> art_files (last (logged (wandb st')))
             = [(''checkpoint.msgpack'', serialize tr (apply_updates tr (params st)
                  (fst (optimizer_update tr
                     (grad tr (\<lambda>q. resnet_loss_fn m q (snd (split tr (rng st)))
                        (dset tr (dset_pos st)) (reg_value fl)) (params st))
                     (opt_state st) (params st)))))]))
   \<and> (sd_train_step tr2 m2 fl2 step2 st2 = Inr st2' \<and> logged (wandb st2') \<noteq> logged (wandb st2) \<longrightarrow>
      (\<exists>loss ll.
           sd_loss_fn m2 (noise fl2) (params st2) (snd (split tr2 (rng st2)))
             (dset tr2 (dset_pos st2)) (reg_value fl2) = Inr (loss, ll)
         \<and> best_eval_loss st2' = loss
         \<and> art_files (last (logged (wandb st2')))
             = [(''checkpoint.msgpack'', serialize tr2 (apply_updates tr2 (params st2)
                  (fst (optimizer_update tr2
                     (grad tr2 (\<lambda>q. sd_loss_fn m2 (noise fl2) q (snd (split tr2 (rng st2)))
                        (dset tr2 (dset_pos st2)) (reg_value fl2)) (params st2))
                     (opt_state st2) (params st2)))))]))"
proof (intro conjI impI)
  assume "resnet_train_step tr m fl step st = Inr st' \<and> logged (wandb st') \<noteq> logged (wandb st)"
  then show "\<exists>loss ll.
           resnet_loss_fn m (params st) (snd (split tr (rng st))) (dset tr (dset_pos st))
             (reg_value fl) = Inr (loss, ll)
         \<and> best_eval_loss st' = loss
         \<and> art_files (last (logged (wandb st')))
             = [(''checkpoint.msgpack'', serialize tr (apply_updates tr (params st)
                  (fst (optimizer_update tr
                     (grad tr (\<lambda>q. resnet_loss_fn m q (snd (split tr (rng st)))
                        (dset tr (dset_pos st)) (reg_value fl)) (params st))
                     (opt_state st) (params st)))))]"
    using resnet_step_saved [of tr m fl step st st'] by blast
next
  assume "sd_train_step tr2 m2 fl2 step2 st2 = Inr st2' \<and> logged (wandb st2') \<noteq> logged (wandb st2)"
  then show "\<exists>loss ll.
           sd_loss_fn m2 (noise fl2) (params st2) (snd (split tr2 (rng st2)))
             (dset tr2 (dset_pos st2)) (reg_value fl2) = Inr (loss, ll)
         \<and> best_eval_loss st2' = loss
         \<and> art_files (last (logged (wandb st2')))
             = [(''checkpoint.msgpack'', serialize tr2 (apply_updates tr2 (params st2)
                  (fst (optimizer_update tr2
                     (grad tr2 (\<lambda>q. sd_loss_fn m2 (noise fl2) q (snd (split tr2 (rng st2)))
                        (dset tr2 (dset_pos st2)) (reg_value fl2)) (params st2))
                     (opt_state st2) (params st2)))))]"
    using sd_step_saved [of tr2 m2 fl2 step2 st2 st2'] by blast
qed

theorem persisted_params_are_post_update_witness:
  "(\<exists>st'. sd_train_step demo_sd_trainer demo_sd demo_flags 1 (initial_state demo_sd_trainer 0 7)
            = Inr st'
      \<and> logged (wandb st') \<noteq> logged (wandb (initial_state demo_sd_trainer 0 7))
      \<and> params (initial_state demo_sd_trainer 0 7) = 7
      \<and> sd_loss_fn demo_sd ''Pixel'' 7 0 demo_batch (1 / 100) = Inr (3 / 100, 0)
      \<and> best_eval_loss st' = 3 / 100
      \<and> art_files (last (logged (wandb st'))) = [(''checkpoint.msgpack'', [8])]
      \<and> serialize demo_sd_trainer 7 = [7])
   \<and> (\<exists>st'. resnet_train_step demo_resnet_trainer demo_resnet (demo_flags\<lparr>reg_value := 0\<rparr>) 1
              (initial_state demo_resnet_trainer 1 (0, 2)) = Inr st'
      \<and> logged (wandb st') \<noteq> logged (wandb (initial_state demo_resnet_trainer 1 (0, 2)))
      \<and> params (initial_state demo_resnet_trainer 1 (0, 2)) = (0, 2)
      \<and> resnet_loss_fn demo_resnet (0, 2) 1 demo_batch 0
          = Inr (ln (2 * pi) / 2 - ln 10, ln (2 * pi) / 2 - ln 10)
      \<and> best_eval_loss st' = ln (2 * pi) / 2 - ln 10
      \<and> art_files (last (logged (wandb st'))) = [(''checkpoint.msgpack'', [0, 3])]
      \<and> serialize demo_resnet_trainer (0, 2) = [0, 2])"
proof -
  define L :: real where "L = - (ln 10 - ln (2 * pi) / 2)"
  define S0 where "S0 = initial_state demo_resnet_trainer 1 (0, 2)"
  define S1 where "S1 = resnet_save_best (serialize demo_resnet_trainer) 1 L
              (after_update demo_resnet_trainer (resnet_loss_fn demo_resnet)
                 (demo_flags\<lparr>reg_value := 0\<rparr>) S0 L L)"
  define T0 where "T0 = initial_state demo_sd_trainer 0 7"
  define T1 where "T1 = sd_save_best (serialize demo_sd_trainer) 1 (3 / 100)
              (after_update demo_sd_trainer (sd_loss_fn demo_sd ''Pixel'') demo_flags
                 T0 (3 / 100) 0)"
  have neg: "L < 1000000" "L < 1"
    using demo_loss_negative unfolding L_def by linarith+
  have L': "L = ln (2 * pi) / 2 - ln 10"
    unfolding L_def by simp
  have h1: "resnet_train_step demo_resnet_trainer demo_resnet (demo_flags\<lparr>reg_value := 0\<rparr>) 1 S0
              = Inr S1"
    unfolding S1_def S0_def L_def by (rule demo_resnet_step1)
  have h2: "sd_train_step demo_sd_trainer demo_sd demo_flags 1 T0 = Inr T1"
    unfolding T1_def T0_def by (rule demo_sd_step1)
  have c1: "logged (wandb S1) \<noteq> logged (wandb S0)"
    unfolding S1_def S0_def using neg
    by (simp add: wandb_resnet_save_best logged_save_checkpoint)
  have c2: "logged (wandb T1) \<noteq> logged (wandb T0)"
    unfolding T1_def T0_def by (simp add: wandb_sd_save_best logged_save_checkpoint)
  have f1: "params S0 = (0, 2)" "rng S0 = 1" "opt_state S0 = 0" "dset_pos S0 = 1"
    unfolding S0_def by simp_all
  have f2: "params T0 = 7" "rng T0 = 0" "opt_state T0 = 0" "dset_pos T0 = 1"
    unfolding T0_def by simp_all
  have l1: "\<And>key. resnet_loss_fn demo_resnet (0, 2) key demo_batch 0 = Inr (L, L)"
    unfolding L_def by (simp add: demo_resnet_loss demo_log_prob_value)
  note t = persisted_params_are_post_update
    [of demo_resnet_trainer demo_resnet "demo_flags\<lparr>reg_value := 0\<rparr>" 1 S0 S1
        demo_sd_trainer demo_sd demo_flags 1 T0 T1]
  from t [THEN conjunct1, THEN mp, OF conjI [OF h1 c1]]
  have r1: "best_eval_loss S1 = L
      \<and> art_files (last (logged (wandb S1))) = [(''checkpoint.msgpack'', [0, 3])]"
    by (auto simp: f1 l1)
  from t [THEN conjunct2, THEN mp, OF conjI [OF h2 c2]]
  have r2: "best_eval_loss T1 = 3 / 100
      \<and> art_files (last (logged (wandb T1))) = [(''checkpoint.msgpack'', [8])]"
    by (auto simp: f2 demo_sd_loss)
  have a: "\<exists>st'. sd_train_step demo_sd_trainer demo_sd demo_flags 1 T0 = Inr st'
      \<and> logged (wandb st') \<noteq> logged (wandb T0)
      \<and> params T0 = 7
      \<and> sd_loss_fn demo_sd ''Pixel'' 7 0 demo_batch (1 / 100) = Inr (3 / 100, 0)
      \<and> best_eval_loss st' = 3 / 100
      \<and> art_files (last (logged (wandb st'))) = [(''checkpoint.msgpack'', [8])]
      \<and> serialize demo_sd_trainer 7 = [7]"
    using h2 c2 f2 r2 by (auto simp: demo_sd_loss)
  have b: "\<exists>st'. resnet_train_step demo_resnet_trainer demo_resnet (demo_flags\<lparr>reg_value := 0\<rparr>) 1
              S0 = Inr st'
      \<and> logged (wandb st') \<noteq> logged (wandb S0)
      \<and> params S0 = (0, 2)
      \<and> resnet_loss_fn demo_resnet (0, 2) 1 demo_batch 0 = Inr (L, L)
      \<and> best_eval_loss st' = L
      \<and> art_files (last (logged (wandb st'))) = [(''checkpoint.msgpack'', [0, 3])]
      \<and> serialize demo_resnet_trainer (0, 2) = [0, 2]"
    using h1 c1 f1 r1 l1 by auto
  from a b show ?thesis
    unfolding T0_def S0_def L' by blast
qed

subsection \<open>A horizon below fifty steps\<close>

lemma train_loop_small_horizon:
  assumes "0 < training_steps fl" and "training_steps fl < 50"
  shows "\<exists>e. train_loop (train_step tr lf sb fl) [1..<Suc (training_steps fl)] st = Inl e
           \<and> (e = ZeroDivisionError
               \<or> lf (params st) (snd (split tr (rng st))) (dset tr (dset_pos st)) (reg_value fl)
                   = Inl e)"
proof (cases "lf (params st) (snd (split tr (rng st))) (dset tr (dset_pos st)) (reg_value fl)")
  case (Inl e)
  then have "train_step tr lf sb fl 1 st = Inl e"
    using assms(2) by (simp add: train_step_small_horizon)
  then have "train_loop (train_step tr lf sb fl) [1..<Suc (training_steps fl)] st = Inl e"
    using assms(1) by (rule train_loop_first_fails)
  with Inl show ?thesis by blast
next
  case (Inr v)
  then have "train_step tr lf sb fl 1 st = Inl ZeroDivisionError"
    using assms(2) by (simp add: train_step_small_horizon)
  then have "train_loop (train_step tr lf sb fl) [1..<Suc (training_steps fl)] st
               = Inl ZeroDivisionError"
    using assms(1) by (rule train_loop_first_fails)
  then show ?thesis by blast
qed

lemma bindE_Inl_propagates:
  "(\<And>v. \<exists>e. f v = Inl e) \<Longrightarrow> \<exists>e. bindE m f = Inl e"
  by (cases m) simp_all

lemma resnet_loop_small_horizon:
  assumes "0 < training_steps fl \<and> training_steps fl < 50"
    and "resnet_loss_fn m (params st) (snd (split tr (rng st))) (dset tr (dset_pos st))
                (reg_value fl) = Inr v"
  shows "train_loop (resnet_train_step tr m fl) [1..<Suc (training_steps fl)] st
            = Inl ZeroDivisionError"
proof -
  from assms have "resnet_train_step tr m fl 1 st = Inl ZeroDivisionError"
    by (simp add: resnet_train_step_def train_step_small_horizon)
  then show ?thesis
    using assms(1) by (intro train_loop_first_fails) simp_all
qed

lemma sd_loop_small_horizon:
  assumes "0 < training_steps fl \<and> training_steps fl < 50"
    and "sd_loss_fn m (noise fl) (params st) (snd (split tr (rng st)))
                (dset tr (dset_pos st)) (reg_value fl) = Inr v"
  shows "train_loop (sd_train_step tr m fl) [1..<Suc (training_steps fl)] st
            = Inl ZeroDivisionError"
proof -
  from assms have "sd_train_step tr m fl 1 st = Inl ZeroDivisionError"
    by (simp add: sd_train_step_def train_step_small_horizon)
  then show ?thesis
    using assms(1) by (intro train_loop_first_fails) simp_all
qed

lemma resnet_main_small_horizon:
  assumes a: "0 < training_steps fl \<and> training_steps fl < 50"
  shows "\<exists>e. resnet_main tr m fl = Inl e"
proof -
  have "\<And>st0. \<exists>e. bindE (train_loop (resnet_train_step tr m fl) [1..<Suc (training_steps fl)] st0)
                  (resnet_finalize tr) = Inl e"
  proof -
    fix st0
    obtain e where "train_loop (resnet_train_step tr m fl) [1..<Suc (training_steps fl)] st0 = Inl e"
      unfolding resnet_train_step_def using train_loop_small_horizon a by blast
    then show "\<exists>e. bindE (train_loop (resnet_train_step tr m fl) [1..<Suc (training_steps fl)] st0)
                  (resnet_finalize tr) = Inl e" by simp
  qed
  then show ?thesis
    unfolding resnet_main_def by (rule bindE_Inl_propagates)
qed

lemma sd_main_small_horizon:
  assumes a: "0 < training_steps fl \<and> training_steps fl < 50"
  shows "\<exists>e. sd_main tr m fl = Inl e"
proof -
  have "\<And>st0. \<exists>e. bindE (train_loop (sd_train_step tr m fl) [1..<Suc (training_steps fl)] st0)
                  (sd_finalize tr) = Inl e"
  proof -
    fix st0
    obtain e where "train_loop (sd_train_step tr m fl) [1..<Suc (training_steps fl)] st0 = Inl e"
      unfolding sd_train_step_def using train_loop_small_horizon a by blast
    then show "\<exists>e. bindE (train_loop (sd_train_step tr m fl) [1..<Suc (training_steps fl)] st0)
                  (sd_finalize tr) = Inl e" by simp
  qed
  then show ?thesis
    unfolding sd_main_def by (rule bindE_Inl_propagates)
qed

text \<open>
  Claim C7. The claim says that a run with fewer than fifty steps never evaluates and
  completes. In the code \<^verbatim>\<open>step % (config.steps // 50)\<close> divides by zero: with between
  \<open>1\<close> and \<open>49\<close> steps both scripts end in an error, and the loop ends in
  \<open>ZeroDivisionError\<close> in its first step whenever that step's loss is computed.
\<close>

theorem small_horizon_crashes:
  "0 < training_steps fl \<and> training_steps fl < 50 \<longrightarrow>
     (\<exists>e. resnet_main tr m fl = Inl e)
   \<and> (\<exists>e. sd_main tr2 m2 fl = Inl e)
   \<and> (\<forall>st v. resnet_loss_fn m (params st) (snd (split tr (rng st))) (dset tr (dset_pos st))
                (reg_value fl) = Inr v \<longrightarrow>
          train_loop (resnet_train_step tr m fl) [1..<Suc (training_steps fl)] st
            = Inl ZeroDivisionError)
   \<and> (\<forall>st v. sd_loss_fn m2 (noise fl) (params st) (snd (split tr2 (rng st)))
                (dset tr2 (dset_pos st)) (reg_value fl) = Inr v \<longrightarrow>
          train_loop (sd_train_step tr2 m2 fl) [1..<Suc (training_steps fl)] st
            = Inl ZeroDivisionError)"
  using resnet_main_small_horizon [of fl tr m] sd_main_small_horizon [of fl tr2 m2]
    resnet_loop_small_horizon [of fl m _ tr] sd_loop_small_horizon [of fl m2 _ tr2]
  by blast

theorem small_horizon_crashes_witness:
  "0 < training_steps (demo_flags\<lparr>training_steps := 10\<rparr>)
   \<and> training_steps (demo_flags\<lparr>training_steps := 10\<rparr>) < 50
   \<and> resnet_main demo_resnet_trainer demo_resnet (demo_flags\<lparr>training_steps := 10\<rparr>)
       = Inl ZeroDivisionError
   \<and> sd_main demo_sd_trainer demo_sd (demo_flags\<lparr>training_steps := 10\<rparr>)
       = Inl ZeroDivisionError"
proof -
  let ?fl = "demo_flags\<lparr>training_steps := 10\<rparr>"
  have a: "0 < training_steps ?fl \<and> training_steps ?fl < 50" by simp
  note t = small_horizon_crashes [of ?fl demo_resnet_trainer demo_resnet demo_sd_trainer demo_sd,
      THEN mp, OF a]
  have s1: "resnet_setup demo_resnet_trainer ?fl = Inr (initial_state demo_resnet_trainer 1 (0, 2))"
    by (simp add: resnet_setup_def demo_flags_def get_activation_fn_def activation_functions_def
      demo_resnet_trainer_def Let_def)
  have s2: "sd_setup demo_sd_trainer ?fl = Inr (initial_state demo_sd_trainer 0 7)"
    by (simp add: sd_setup_def demo_flags_def get_activation_fn_def activation_functions_def
      new_optimizer_def demo_sd_trainer_def Let_def)
  have l1: "train_loop (resnet_train_step demo_resnet_trainer demo_resnet ?fl)
              [1..<Suc (training_steps ?fl)] (initial_state demo_resnet_trainer 1 (0, 2))
            = Inl ZeroDivisionError"
    using t [THEN conjunct2, THEN conjunct2, THEN conjunct1, THEN spec, THEN spec, THEN mp,
        of "initial_state demo_resnet_trainer 1 (0, 2)"]
    by (simp add: demo_resnet_loss)
  have l2: "train_loop (sd_train_step demo_sd_trainer demo_sd ?fl)
              [1..<Suc (training_steps ?fl)] (initial_state demo_sd_trainer 0 7)
            = Inl ZeroDivisionError"
    using t [THEN conjunct2, THEN conjunct2, THEN conjunct2, THEN spec, THEN spec, THEN mp,
        of "initial_state demo_sd_trainer 0 7"]
    by (simp add: demo_sd_loss)
  show ?thesis
    using a l1 l2 by (simp add: resnet_main_def sd_main_def s1 s2)
qed

subsection \<open>An unsupported noise mode\<close>

lemma sequenceE_map_Inr [simp]: "sequenceE (map Inr vs) = Inr vs"
  by (simp add: sequenceE_eq_Inr)













subsection \<open>After the loop\<close>

lemma report_best_Inr:
  "report_best st p = Inr f \<Longrightarrow> final_params f = p"
  unfolding report_best_def bindE_eq_Inr by auto

lemma report_best_total:
  assumes "losses st \<noteq> []" and "log_liks st \<noteq> []"
  shows "\<exists>f. report_best st p = Inr f"
proof -
  from assms(1) obtain x xs where a: "losses st = x # xs" by (cases "losses st") auto
  from assms(2) obtain y ys where b: "log_liks st = y # ys" by (cases "log_liks st") auto
  show ?thesis by (simp add: report_best_def py_min_def a b)
qed


lemma load_checkpoint_Inr:
  assumes "load_checkpoint fb file s w = Inr p"
  shows "\<exists>a byte_data.
           use_artifact (run_id w @ ''-checkpoint'') ''best'' w = Some a
         \<and> map_of (art_files a) file = Some byte_data
         \<and> fb s byte_data = Inr p"
proof (cases "use_artifact (run_id w @ ''-checkpoint'') ''best'' w")
  case None
  with assms show ?thesis by (simp add: load_checkpoint_def)
next
  case (Some a)
  show ?thesis
  proof (cases "map_of (art_files a) file")
    case None
    with Some assms show ?thesis by (simp add: load_checkpoint_def)
  next
    case (Some byte_data)
    with \<open>use_artifact (run_id w @ ''-checkpoint'') ''best'' w = Some a\<close> assms
    show ?thesis by (simp add: load_checkpoint_def)
  qed
qed

lemma resnet_finalize_Inr:
  assumes "resnet_finalize tr st = Inr f"
  shows "\<exists>a byte_data.
           use_artifact (run_id (wandb st) @ ''-checkpoint'') ''best'' (wandb st) = Some a
         \<and> map_of (art_files a) ''checkpoint.msgpack'' = Some byte_data
         \<and> deserialize tr (params st) byte_data = Inr (final_params f)"
proof -
  from assms obtain p where
    l: "load_checkpoint (deserialize tr) ''checkpoint.msgpack'' (params st) (wandb st) = Inr p"
    and r: "report_best st p = Inr f"
    unfolding resnet_finalize_def bindE_eq_Inr by blast
  from r have "final_params f = p" by (rule report_best_Inr)
  with load_checkpoint_Inr [OF l] show ?thesis by simp
qed

lemma resnet_finalize_no_checkpoint:
  "logged (wandb st) = [] \<Longrightarrow> resnet_finalize tr st = Inl CommError"
  by (simp add: resnet_finalize_def load_checkpoint_def use_artifact_none)

text \<open>
  Claim C5, amended. When what follows the loop of VAE\_Resnet\_train\_C.py succeeds, the
  final parameters are those deserialized from the file of the version the alias \<open>best\<close>
  resolves to, with the last-step parameters as template; when no version was logged it
  fails with the registry's error. What follows the loop of VAE\_SD\_C.py does not reload:
  its final parameters are the last-step parameters, and it succeeds whenever the loss
  traces are not empty, whether or not a checkpoint was logged.
\<close>

theorem finalize_parameters:
  "(resnet_finalize tr st = Inr f \<longrightarrow>
      (\<exists>a byte_data.
           use_artifact (run_id (wandb st) @ ''-checkpoint'') ''best'' (wandb st) = Some a
         \<and> map_of (art_files a) ''checkpoint.msgpack'' = Some byte_data
         \<and> deserialize tr (params st) byte_data = Inr (final_params f)))
   \<and> (logged (wandb st) = [] \<longrightarrow> resnet_finalize tr st = Inl CommError)
   \<and> (sd_finalize tr2 st2 = Inr f2 \<longrightarrow> final_params f2 = params st2)
   \<and> (losses st2 \<noteq> [] \<and> log_liks st2 \<noteq> [] \<longrightarrow> (\<exists>f2. sd_finalize tr2 st2 = Inr f2))"
proof (intro conjI impI)
  assume "resnet_finalize tr st = Inr f"
  then show "\<exists>a byte_data.
           use_artifact (run_id (wandb st) @ ''-checkpoint'') ''best'' (wandb st) = Some a
         \<and> map_of (art_files a) ''checkpoint.msgpack'' = Some byte_data
         \<and> deserialize tr (params st) byte_data = Inr (final_params f)"
    by (rule resnet_finalize_Inr)
next
  assume "logged (wandb st) = []"
  then show "resnet_finalize tr st = Inl CommError"
    by (rule resnet_finalize_no_checkpoint)
next
  assume "sd_finalize tr2 st2 = Inr f2"
  then show "final_params f2 = params st2"
    unfolding sd_finalize_def by (rule report_best_Inr)
next
  assume a: "losses st2 \<noteq> [] \<and> log_liks st2 \<noteq> []"
  show "\<exists>f2. sd_finalize tr2 st2 = Inr f2"
    unfolding sd_finalize_def
    by (rule report_best_total) (use a in simp_all)
qed

lemma demo_sd_eval_loop:
  "eval_loop demo_sd_trainer (sd_loss_fn demo_sd ''Pixel'') c p [demo_batch] (key, acc, ll)
     = Inr (Suc key, acc @ [3 * c], Some 0)"
  by (simp add: demo_sd_loss)

lemma demo_sd_evaluate:
  "\<exists>st'. evaluate demo_sd_trainer (sd_loss_fn demo_sd ''Pixel'') c step st = Inr st'"
  by (simp add: evaluate_def demo_sd_loss)


lemma demo_sd_step_steady:
  assumes "reg_value fl = c" and "noise fl = ''Pixel''" and "50 \<le> training_steps fl"
    and "best_eval_loss st \<le> 3 * c"
  shows "\<exists>st'. sd_train_step demo_sd_trainer demo_sd fl step st = Inr st'
           \<and> params st' = Suc (params st) \<and> wandb st' = wandb st
           \<and> best_eval_loss st' = best_eval_loss st
           \<and> losses st' = losses st @ [3 * c] \<and> log_liks st' = log_liks st @ [0]"
proof -
  define au where "au = after_update demo_sd_trainer (sd_loss_fn demo_sd ''Pixel'') fl st (3 * c) 0"
  from assms(3) have nz: "training_steps fl div 50 \<noteq> 0" by simp
  have f: "params au = Suc (params st)" "wandb au = wandb st"
    "best_eval_loss au = best_eval_loss st" "losses au = losses st @ [3 * c]"
    "log_liks au = log_liks st @ [0]"
    unfolding au_def by simp_all
  from assms(4) f(3) have sb: "sd_save_best (serialize demo_sd_trainer) step (3 * c) au = au"
    by (simp add: sd_save_best_def)
  have lf: "sd_loss_fn demo_sd (noise fl) (params st) (snd (split demo_sd_trainer (rng st)))
              (dset demo_sd_trainer (dset_pos st)) (reg_value fl) = Inr (3 * c, 0)"
    using assms(1,2) by (simp add: demo_sd_loss)
  have ts: "sd_train_step demo_sd_trainer demo_sd fl step st =
          (if step mod (training_steps fl div 50) = 0
           then evaluate demo_sd_trainer (sd_loss_fn demo_sd ''Pixel'') c step au
           else Inr au)"
    unfolding sd_train_step_def train_step_unfold lf
    using nz assms(1,2) sb by (simp add: au_def)
  show ?thesis
  proof (cases "step mod (training_steps fl div 50) = 0")
    case False
    with ts f show ?thesis by simp
  next
    case True
    obtain st' where e: "evaluate demo_sd_trainer (sd_loss_fn demo_sd ''Pixel'') c step au = Inr st'"
      using demo_sd_evaluate by blast
    from evaluate_Inr [OF e] f ts True e show ?thesis by simp
  qed
qed

lemma demo_sd_loop_steady:
  assumes "reg_value fl = c" and "noise fl = ''Pixel''" and "50 \<le> training_steps fl"
  shows "best_eval_loss st \<le> 3 * c \<Longrightarrow>
         \<exists>st'. train_loop (sd_train_step demo_sd_trainer demo_sd fl) steps st = Inr st'
           \<and> params st' = params st + length steps \<and> wandb st' = wandb st
           \<and> losses st' = losses st @ replicate (length steps) (3 * c)
           \<and> log_liks st' = log_liks st @ replicate (length steps) 0"
proof (induction steps arbitrary: st)
  case Nil
  show ?case by simp
next
  case (Cons step steps)
  from demo_sd_step_steady [OF assms Cons.prems, of step] obtain st1 where
    s: "sd_train_step demo_sd_trainer demo_sd fl step st = Inr st1" and
    f: "params st1 = Suc (params st)" "wandb st1 = wandb st"
       "best_eval_loss st1 = best_eval_loss st"
       "losses st1 = losses st @ [3 * c]" "log_liks st1 = log_liks st @ [0]"
    by blast
  from Cons.prems f(3) have "best_eval_loss st1 \<le> 3 * c" by simp
  from Cons.IH [OF this] obtain st' where
    r: "train_loop (sd_train_step demo_sd_trainer demo_sd fl) steps st1 = Inr st'"
    "params st' = params st1 + length steps" "wandb st' = wandb st1"
    "losses st' = losses st1 @ replicate (length steps) (3 * c)"
    "log_liks st' = log_liks st1 @ replicate (length steps) 0"
    by blast
  have "train_loop (sd_train_step demo_sd_trainer demo_sd fl) (step # steps) st = Inr st'"
    using s r(1) by simp
  moreover have "params st' = params st + length (step # steps)"
    using r(2) f(1) by simp
  moreover have "wandb st' = wandb st"
    using r(3) f(2) by simp
  moreover have "losses st' = losses st @ replicate (length (step # steps)) (3 * c)"
    using r(4) f(4) by simp
  moreover have "log_liks st' = log_liks st @ replicate (length (step # steps)) 0"
    using r(5) f(5) by simp
  ultimately show ?case by blast
qed

lemma py_min_replicate: "py_min (x # replicate n x) = Inr x"
  by (induction n) (simp_all add: py_min_def)

lemma report_best_constant:
  assumes "losses st = x # replicate n x" and "log_liks st = y # replicate n y"
  shows "report_best st p = Inr \<lparr>final_params = p, best_step = 1, best_step_log = 1\<rparr>"
  unfolding report_best_def assms py_min_replicate
  by (simp add: py_index_def)

lemma replicate_pos: "0 < n \<Longrightarrow> replicate n x = x # replicate (n - 1) x"
  by (cases n) simp_all

lemma demo_sd_setup_gen:
  assumes "act_fn fl = ''gelu''" and "opt fl = ''adafactor''" and "0 < training_steps fl"
  shows "sd_setup demo_sd_trainer fl = Inr (initial_state demo_sd_trainer 0 7)"
  using assms
  by (simp add: sd_setup_def get_activation_fn_def activation_functions_def
      new_optimizer_def demo_sd_trainer_def Let_def)

lemma demo_flags_names [simp]:
  "act_fn demo_flags = ''gelu''" "opt demo_flags = ''adafactor''"
  by (simp_all add: demo_flags_def)

lemma sd_main_eq:
  assumes "sd_setup tr fl = Inr st0"
    and "train_loop (sd_train_step tr m fl) [1..<Suc (training_steps fl)] st0 = Inr st'"
  shows "sd_main tr m fl = sd_finalize tr st'"
  unfolding sd_main_def by (simp only: assms bindE_Inr)

lemma length_steps: "length [Suc 0..<Suc n] = n"
  by simp

lemma demo_sd_run_never_saving:
  "\<exists>st'. train_loop (sd_train_step demo_sd_trainer demo_sd (demo_flags\<lparr>reg_value := 1000000\<rparr>))
            [1..<Suc (training_steps (demo_flags\<lparr>reg_value := 1000000\<rparr>))]
            (initial_state demo_sd_trainer 0 7) = Inr st'
      \<and> logged (wandb st') = [] \<and> params st' = 107
      \<and> sd_finalize demo_sd_trainer st'
          = Inr \<lparr>final_params = 107, best_step = 1, best_step_log = 1\<rparr>
      \<and> sd_main demo_sd_trainer demo_sd (demo_flags\<lparr>reg_value := 1000000\<rparr>)
          = Inr \<lparr>final_params = 107, best_step = 1, best_step_log = 1\<rparr>"
proof -
  define fl where "fl = demo_flags\<lparr>reg_value := 1000000\<rparr>"
  define steps where "steps = [1..<Suc (training_steps fl)]"
  define T0 where "T0 = initial_state demo_sd_trainer 0 7"
  have fl: "reg_value fl = 1000000" "noise fl = ''Pixel''" "50 \<le> training_steps fl"
    unfolding fl_def by simp_all
  have n: "length steps = 100"
    unfolding steps_def fl_def by (simp only: One_nat_def length_steps; simp)
  have b: "best_eval_loss T0 \<le> 3 * 1000000" unfolding T0_def by simp
  from demo_sd_loop_steady [OF fl b, of steps]
  obtain st' where
    r: "train_loop (sd_train_step demo_sd_trainer demo_sd fl) steps T0 = Inr st'" and
    p: "params st' = params T0 + length steps" and
    w: "wandb st' = wandb T0" and
    l: "losses st' = losses T0 @ replicate (length steps) (3 * 1000000)" and
    ll: "log_liks st' = log_liks T0 @ replicate (length steps) 0"
    by blast
  have p': "params st' = 107" using p unfolding n T0_def by simp
  have w': "logged (wandb st') = []" using w unfolding T0_def by simp
  have l': "losses st' = 3000000 # replicate (100 - 1) 3000000"
    using l replicate_pos [of 100 "3000000::real"] unfolding n T0_def by simp
  have ll': "log_liks st' = 0 # replicate (100 - 1) 0"
    using ll replicate_pos [of 100 "0::real"] unfolding n T0_def by simp
  have fin: "sd_finalize demo_sd_trainer st'
          = Inr \<lparr>final_params = 107, best_step = 1, best_step_log = 1\<rparr>"
    unfolding sd_finalize_def p' by (rule report_best_constant [OF l' ll'])
  have su: "sd_setup demo_sd_trainer fl = Inr T0"
    unfolding T0_def fl_def by (rule demo_sd_setup_gen) simp_all
  have run: "sd_main demo_sd_trainer demo_sd fl
          = Inr \<lparr>final_params = 107, best_step = 1, best_step_log = 1\<rparr>"
    using sd_main_eq [OF su r [unfolded steps_def]] fin by (rule trans)
  show ?thesis
    apply (rule exI [of _ st'])
    apply (intro conjI)
        apply (rule r [unfolded steps_def fl_def T0_def])
       apply (rule w')
      apply (rule p')
     apply (rule fin)
    apply (rule run [unfolded fl_def])
    done
qed

lemma demo_sd_run_default:
  "\<exists>st'. train_loop (sd_train_step demo_sd_trainer demo_sd demo_flags)
            [1..<Suc (training_steps demo_flags)] (initial_state demo_sd_trainer 0 7) = Inr st'
      \<and> map art_files (logged (wandb st')) = [[(''checkpoint.msgpack'', [8])]]
      \<and> params st' = 107
      \<and> sd_finalize demo_sd_trainer st'
          = Inr \<lparr>final_params = 107, best_step = 1, best_step_log = 1\<rparr>
      \<and> sd_main demo_sd_trainer demo_sd demo_flags
          = Inr \<lparr>final_params = 107, best_step = 1, best_step_log = 1\<rparr>"
proof -
  define T0 where "T0 = initial_state demo_sd_trainer 0 7"
  define T1 where "T1 = sd_save_best (serialize demo_sd_trainer) 1 (3 / 100)
              (after_update demo_sd_trainer (sd_loss_fn demo_sd ''Pixel'') demo_flags
                 T0 (3 / 100) 0)"
  define rest where "rest = [Suc 1..<Suc (training_steps demo_flags)]"
  have h: "sd_train_step demo_sd_trainer demo_sd demo_flags 1 T0 = Inr T1"
    unfolding T1_def T0_def by (rule demo_sd_step1)
  have f: "params T1 = 8" "losses T1 = [3 / 100]" "log_liks T1 = [0]"
    "best_eval_loss T1 = 3 / 100"
    "map art_files (logged (wandb T1)) = [[(''checkpoint.msgpack'', [8])]]"
    unfolding T1_def T0_def by (simp_all add: wandb_sd_save_best logged_save_checkpoint)
  have fl: "reg_value demo_flags = 1 / 100" "noise demo_flags = ''Pixel''"
    "50 \<le> training_steps demo_flags"
    by simp_all
  have n: "length rest = 99"
    unfolding rest_def by (simp only: length_upt demo_flags_simps; simp)
  have b: "best_eval_loss T1 \<le> 3 * (1 / 100)" using f(4) by simp
  from demo_sd_loop_steady [OF fl b, of rest]
  obtain st' where
    r: "train_loop (sd_train_step demo_sd_trainer demo_sd demo_flags) rest T1 = Inr st'" and
    p: "params st' = params T1 + length rest" and
    w: "wandb st' = wandb T1" and
    l: "losses st' = losses T1 @ replicate (length rest) (3 * (1 / 100))" and
    ll: "log_liks st' = log_liks T1 @ replicate (length rest) 0"
    by blast
  have u: "[1..<Suc (training_steps demo_flags)] = 1 # rest"
    unfolding rest_def by (intro upt_conv_Cons) simp
  have r': "train_loop (sd_train_step demo_sd_trainer demo_sd demo_flags)
          [1..<Suc (training_steps demo_flags)] T0 = Inr st'"
    unfolding u by (simp only: train_loop.simps h bindE_Inr r)
  have p': "params st' = 107" using p unfolding n f(1) by simp
  have w': "map art_files (logged (wandb st')) = [[(''checkpoint.msgpack'', [8])]]"
    using w f(5) by simp
  have c: "3 * (1 / 100) = (3 / 100 :: real)" by simp
  have l': "losses st' = 3 / 100 # replicate 99 (3 / 100)"
    using l unfolding n f(2) c by (simp only: append.simps)
  have ll': "log_liks st' = 0 # replicate 99 0"
    using ll unfolding n f(3) by (simp only: append.simps)
  have fin: "sd_finalize demo_sd_trainer st'
          = Inr \<lparr>final_params = 107, best_step = 1, best_step_log = 1\<rparr>"
    unfolding sd_finalize_def p' by (rule report_best_constant [OF l' ll'])
  have su: "sd_setup demo_sd_trainer demo_flags = Inr T0"
    unfolding T0_def by (rule demo_sd_setup_gen) simp_all
  have run: "sd_main demo_sd_trainer demo_sd demo_flags
          = Inr \<lparr>final_params = 107, best_step = 1, best_step_log = 1\<rparr>"
    using sd_main_eq [OF su r'] fin by (rule trans)
  show ?thesis
    apply (rule exI [of _ st'])
    apply (intro conjI)
        apply (rule r' [unfolded T0_def])
       apply (rule w')
      apply (rule p')
     apply (rule fin)
    apply (rule run)
    done
qed

text \<open>
  Counterexample to claim C5 as stated: two runs of VAE\_SD\_C.py over one hundred steps.
  In the first no step improves on the sentinel, no checkpoint is logged and the run ends
  normally with the last-step parameters \<open>107\<close>. In the second the only checkpoint, of step
  \<open>1\<close>, holds the parameters \<open>8\<close>, and the final parameters are \<open>107\<close> again.
\<close>

theorem sd_keeps_last_step_parameters:
  "(\<exists>st'. train_loop (sd_train_step demo_sd_trainer demo_sd (demo_flags\<lparr>reg_value := 1000000\<rparr>))
            [1..<Suc (training_steps (demo_flags\<lparr>reg_value := 1000000\<rparr>))]
            (initial_state demo_sd_trainer 0 7) = Inr st'
      \<and> logged (wandb st') = [] \<and> params st' = 107
      \<and> sd_finalize demo_sd_trainer st'
          = Inr \<lparr>final_params = 107, best_step = 1, best_step_log = 1\<rparr>
      \<and> sd_main demo_sd_trainer demo_sd (demo_flags\<lparr>reg_value := 1000000\<rparr>)
          = Inr \<lparr>final_params = 107, best_step = 1, best_step_log = 1\<rparr>)
   \<and> (\<exists>st'. train_loop (sd_train_step demo_sd_trainer demo_sd demo_flags)
            [1..<Suc (training_steps demo_flags)] (initial_state demo_sd_trainer 0 7) = Inr st'
      \<and> map art_files (logged (wandb st')) = [[(''checkpoint.msgpack'', [8])]]
      \<and> params st' = 107
      \<and> sd_finalize demo_sd_trainer st'
          = Inr \<lparr>final_params = 107, best_step = 1, best_step_log = 1\<rparr>
      \<and> sd_main demo_sd_trainer demo_sd demo_flags
          = Inr \<lparr>final_params = 107, best_step = 1, best_step_log = 1\<rparr>)"
  by (intro conjI demo_sd_run_never_saving demo_sd_run_default)

lemma demo_resnet_deserialize [simp]:
  "deserialize demo_resnet_trainer q [a, b] = Inr (unat a, unat b)"
  by (simp add: demo_resnet_trainer_def)

theorem finalize_parameters_witness:
  "(\<exists>st. resnet_train_step demo_resnet_trainer demo_resnet (demo_flags\<lparr>reg_value := 0\<rparr>) 1
            (initial_state demo_resnet_trainer 1 (0, 2)) = Inr st
      \<and> resnet_finalize demo_resnet_trainer st
          = Inr \<lparr>final_params = (0, 3), best_step = 1, best_step_log = 1\<rparr>
      \<and> (\<exists>a byte_data.
           use_artifact (run_id (wandb st) @ ''-checkpoint'') ''best'' (wandb st) = Some a
         \<and> map_of (art_files a) ''checkpoint.msgpack'' = Some byte_data
         \<and> deserialize demo_resnet_trainer (params st) byte_data
             = Inr (final_params \<lparr>final_params = (0, 3), best_step = 1, best_step_log = 1\<rparr>)))
   \<and> logged (wandb (initial_state demo_resnet_trainer 1 (0, 2))) = []
   \<and> resnet_finalize demo_resnet_trainer (initial_state demo_resnet_trainer 1 (0, 2))
       = Inl CommError
   \<and> (\<exists>st. sd_train_step demo_sd_trainer demo_sd demo_flags 1 (initial_state demo_sd_trainer 0 7)
            = Inr st
      \<and> losses st \<noteq> [] \<and> log_liks st \<noteq> []
      \<and> sd_finalize demo_sd_trainer st
          = Inr \<lparr>final_params = 8, best_step = 1, best_step_log = 1\<rparr>
      \<and> final_params \<lparr>final_params = 8, best_step = 1, best_step_log = 1\<rparr> = params st)"
proof -
  define L :: real where "L = - (ln 10 - ln (2 * pi) / 2)"
  define S0 where "S0 = initial_state demo_resnet_trainer 1 (0, 2)"
  define S1 where "S1 = resnet_save_best (serialize demo_resnet_trainer) 1 L
              (after_update demo_resnet_trainer (resnet_loss_fn demo_resnet)
                 (demo_flags\<lparr>reg_value := 0\<rparr>) S0 L L)"
  define T0 where "T0 = initial_state demo_sd_trainer 0 7"
  define T1 where "T1 = sd_save_best (serialize demo_sd_trainer) 1 (3 / 100)
              (after_update demo_sd_trainer (sd_loss_fn demo_sd ''Pixel'') demo_flags
                 T0 (3 / 100) 0)"
  define F1 :: "(nat \<times> nat) final" where
    "F1 = \<lparr>final_params = (0, 3), best_step = 1, best_step_log = 1\<rparr>"
  define F2 :: "nat final" where
    "F2 = \<lparr>final_params = 8, best_step = 1, best_step_log = 1\<rparr>"
  have neg: "L < 1000000" "L < 1"
    using demo_loss_negative unfolding L_def by linarith+
  have h1: "resnet_train_step demo_resnet_trainer demo_resnet (demo_flags\<lparr>reg_value := 0\<rparr>) 1 S0
              = Inr S1"
    unfolding S1_def S0_def L_def by (rule demo_resnet_step1)
  have h2: "sd_train_step demo_sd_trainer demo_sd demo_flags 1 T0 = Inr T1"
    unfolding T1_def T0_def by (rule demo_sd_step1)
  have f1: "params S1 = (0, 3)" "losses S1 = L # replicate 0 L" "log_liks S1 = L # replicate 0 L"
    unfolding S1_def S0_def by simp_all
  have f2: "params T1 = 8" "losses T1 = 3 / 100 # replicate 0 (3 / 100)"
    "log_liks T1 = 0 # replicate 0 0"
    unfolding T1_def T0_def by simp_all
  have ld: "load_checkpoint (deserialize demo_resnet_trainer) ''checkpoint.msgpack'' (params S1)
              (wandb S1) = Inr (0, 3)"
    unfolding S1_def S0_def using neg
    by (simp add: wandb_resnet_save_best load_checkpoint_def use_artifact_def
        logged_save_checkpoint)
  have r1: "resnet_finalize demo_resnet_trainer S1 = Inr F1"
    unfolding resnet_finalize_def ld bindE_Inr F1_def
    by (rule report_best_constant [OF f1(2,3)])
  have r2: "sd_finalize demo_sd_trainer T1 = Inr F2"
    unfolding sd_finalize_def f2(1) F2_def
    by (rule report_best_constant [OF f2(2,3)])
  have e0: "logged (wandb S0) = []"
    unfolding S0_def by simp
  have ne: "losses T1 \<noteq> [] \<and> log_liks T1 \<noteq> []"
    unfolding f2 by simp
  note t1 = finalize_parameters [of demo_resnet_trainer S1 F1 demo_sd_trainer T1 F2]
  note t0 = finalize_parameters [of demo_resnet_trainer S0 F1 demo_sd_trainer T1 F2]
  have c1: "\<exists>a byte_data.
           use_artifact (run_id (wandb S1) @ ''-checkpoint'') ''best'' (wandb S1) = Some a
         \<and> map_of (art_files a) ''checkpoint.msgpack'' = Some byte_data
         \<and> deserialize demo_resnet_trainer (params S1) byte_data = Inr (final_params F1)"
    using t1 [THEN conjunct1, THEN mp, OF r1] .
  have c2: "resnet_finalize demo_resnet_trainer S0 = Inl CommError"
    using t0 [THEN conjunct2, THEN conjunct1, THEN mp, OF e0] .
  have c3: "final_params F2 = params T1"
    using t1 [THEN conjunct2, THEN conjunct2, THEN conjunct1, THEN mp, OF r2] .
  have a: "\<exists>st. resnet_train_step demo_resnet_trainer demo_resnet (demo_flags\<lparr>reg_value := 0\<rparr>) 1
            S0 = Inr st
      \<and> resnet_finalize demo_resnet_trainer st = Inr F1
      \<and> (\<exists>a byte_data.
           use_artifact (run_id (wandb st) @ ''-checkpoint'') ''best'' (wandb st) = Some a
         \<and> map_of (art_files a) ''checkpoint.msgpack'' = Some byte_data
         \<and> deserialize demo_resnet_trainer (params st) byte_data = Inr (final_params F1))"
    apply (rule exI [of _ S1])
    apply (intro conjI)
      apply (rule h1)
     apply (rule r1)
    apply (rule c1)
    done
  have b: "\<exists>st. sd_train_step demo_sd_trainer demo_sd demo_flags 1 T0 = Inr st
      \<and> losses st \<noteq> [] \<and> log_liks st \<noteq> []
      \<and> sd_finalize demo_sd_trainer st = Inr F2
      \<and> final_params F2 = params st"
    apply (rule exI [of _ T1])
    apply (intro conjI)
        apply (rule h2)
       apply (rule ne [THEN conjunct1])
      apply (rule ne [THEN conjunct2])
     apply (rule r2)
    apply (rule c3)
    done
  show ?thesis
    apply (intro conjI)
       apply (rule a [unfolded S0_def F1_def])
      apply (rule e0 [unfolded S0_def])
     apply (rule c2 [unfolded S0_def])
    apply (rule b [unfolded T0_def F2_def])
    done
qed


subsection \<open>The checkpoint round trip\<close>

declare enc_nat.simps [simp del]


lemma unat_byte_of_nat: "n < 256 \<Longrightarrow> unat (of_nat n :: 8 word) = n"
  by (simp add: unat_of_nat)

lemma dec_enc_nat: "dec_nat (enc_nat n @ rest) = Some (n, rest)"
proof (induction n rule: enc_nat.induct)
  case (1 n)
  show ?case
  proof (cases "n < 128")
    case True
    then show ?thesis
      by (subst enc_nat.simps) (simp add: unat_byte_of_nat)
  next
    case False
    have "128 + n mod 128 < 256"
      using mod_less_divisor [of 128 n] by linarith
    then have "unat (of_nat (128 + n mod 128) :: 8 word) = 128 + n mod 128"
      by (rule unat_byte_of_nat)
    then have u: "unat (128 + of_nat (n mod 128) :: 8 word) = 128 + n mod 128"
      by simp
    from False 1 have ih: "dec_nat (enc_nat (n div 128) @ rest) = Some (n div 128, rest)"
      by simp
    from False show ?thesis
      by (subst enc_nat.simps) (simp add: u ih)
  qed
qed


lemma dec_many_enc:
  assumes "\<And>x r. x \<in> set xs \<Longrightarrow> d (e x @ r) = Some (x, r)"
  shows "dec_many d (length xs) (concat (map e xs) @ rest) = Some (xs, rest)"
  using assms by (induction xs arbitrary: rest) simp_all

lemma dec_enc_nats: "dec_nats (enc_nats ns @ rest) = Some (ns, rest)"
  by (simp add: dec_nats_def enc_nats_def dec_enc_nat dec_many_enc)

lemma dec_enc_bytes: "dec_bytes (enc_bytes b @ rest) = Some (b, rest)"
  by (simp add: dec_bytes_def enc_bytes_def dec_enc_nat)

lemma char_of_byte: "char_of (unat (of_nat (of_char c) :: 8 word)) = c"
  by (simp add: unat_of_nat)

lemma dec_enc_str: "dec_str (enc_str s @ rest) = Some (s, rest)"
  by (simp add: dec_str_def enc_str_def dec_enc_bytes char_of_byte comp_def)

lemma dec_items_enc:
  assumes "\<And>k t r. (k, t) \<in> set kvs \<Longrightarrow> dec_tree t (enc_tree t @ r) = Some (t, r)"
  shows "dec_items kvs (concat (map (\<lambda>(k, v). enc_str k @ enc_tree v) kvs) @ rest)
           = Some (kvs, rest)"
  using assms
proof (induction kvs arbitrary: rest)
  case Nil
  show ?case by simp
next
  case (Cons kv kvs)
  obtain k t where kv: "kv = (k, t)" by (cases kv)
  have t: "\<And>r. dec_tree t (enc_tree t @ r) = Some (t, r)"
    by (rule Cons.prems [of k]) (simp add: kv)
  have ih: "\<And>r. dec_items kvs (concat (map (\<lambda>(k, v). enc_str k @ enc_tree v) kvs) @ r)
                = Some (kvs, r)"
  proof (rule Cons.IH)
    fix k' t' r r'
    assume "(k', t') \<in> set kvs"
    then have "(k', t') \<in> set (kv # kvs)" by simp
    then show "dec_tree t' (enc_tree t' @ r') = Some (t', r')"
      by (rule Cons.prems)
  qed
  show ?case
    by (simp add: kv dec_enc_str t ih)
qed

lemma dec_tree_enc: "dec_tree t (enc_tree t @ rest) = Some (t, rest)"
proof (induction t arbitrary: rest)
  case (Tensor sh dt buf)
  show ?case
    by (simp add: dec_enc_nats dec_enc_str dec_enc_bytes)
next
  case (Dict kvs)
  have "\<And>k t r. (k, t) \<in> set kvs \<Longrightarrow> dec_tree t (enc_tree t @ r) = Some (t, r)"
    using Dict.IH by (auto simp: snds.simps)
  then show ?case
    by (simp add: dec_enc_nat dec_items_enc)
qed

lemma from_bytes_msgpack_serialize:
  "from_bytes t (msgpack_serialize (to_state_dict t)) = Inr t"
  using dec_tree_enc [of t "[]"]
  by (simp add: from_bytes_def msgpack_serialize_def to_state_dict_def)

lemma basename_plain: "CHR ''/'' \<notin> set f \<Longrightarrow> basename f = f"
proof -
  assume "CHR ''/'' \<notin> set f"
  then have "takeWhile (\<lambda>c. c \<noteq> CHR ''/'') (rev f) = rev f"
    by (auto simp: takeWhile_eq_all_conv)
  then show ?thesis unfolding basename_def by (simp only: rev_rev_ident)
qed

lemma load_after_save:
  assumes "CHR ''/'' \<notin> set f"
  shows "load_checkpoint fb f t (save_checkpoint ser f s step w) = fb t (ser s)"
  using assms
  by (simp add: load_checkpoint_def use_artifact_def logged_save_checkpoint basename_plain)

lemma demo_serialized:
  "msgpack_serialize (to_state_dict (Tensor [1, 2] ''f4'' [7, 200])) = [0, 2, 1, 2, 2, 102, 52, 2, 7, 200]"
  by code_simp

lemma demo_other_template:
  "from_bytes (demo_tree [9, 9, 9, 9, 9, 9, 9, 9])
     (msgpack_serialize (to_state_dict (demo_tree [0, 0, 128, 63, 0, 0, 0, 64])))
   = Inr (demo_tree [0, 0, 128, 63, 0, 0, 0, 64])"
  by code_simp

lemma demo_mismatch:
  "from_bytes (Dict [(''kernel'', Tensor [1, 2] ''float32'' [])])
     (msgpack_serialize (to_state_dict (demo_tree [0, 0, 128, 63, 0, 0, 0, 64])))
   = Inl ShapeError"
  by code_simp

text \<open>
  Claim C8. Checkpoint round trip: for every parameter tree, whatever its shape, decoding
  the bytes that \<^verbatim>\<open>save_checkpoint\<close> produces for it, with the same tree as the template,
  gives back the tree itself, every buffer byte for byte. Through the registry as well:
  \<^verbatim>\<open>load_checkpoint\<close> after \<^verbatim>\<open>save_checkpoint\<close>, under the same file name, returns the tree,
  at any step and whatever the run has logged before. The file name is a plain one, as
  \<^verbatim>\<open>checkpoint.msgpack\<close> in both scripts: the registry stores the file under its base name.
\<close>

theorem checkpoint_round_trip:
  "from_bytes t (msgpack_serialize (to_state_dict t)) = Inr t
   \<and> (CHR ''/'' \<notin> set f \<longrightarrow>
        load_checkpoint from_bytes f t
          (save_checkpoint (\<lambda>state. msgpack_serialize (to_state_dict state)) f t step w) = Inr t)"
proof (intro conjI impI)
  show decoded: "from_bytes t (msgpack_serialize (to_state_dict t)) = Inr t"
    by (rule from_bytes_msgpack_serialize)
  assume "CHR ''/'' \<notin> set f"
  then have "load_checkpoint from_bytes f t
               (save_checkpoint (\<lambda>state. msgpack_serialize (to_state_dict state)) f t step w)
             = from_bytes t (msgpack_serialize (to_state_dict t))"
    by (rule load_after_save)
  with decoded show "load_checkpoint from_bytes f t
      (save_checkpoint (\<lambda>state. msgpack_serialize (to_state_dict state)) f t step w) = Inr t"
    by simp
qed

theorem checkpoint_round_trip_witness:
  "CHR ''/'' \<notin> set ''checkpoint.msgpack''
   \<and> load_checkpoint from_bytes ''checkpoint.msgpack'' (demo_tree [0, 0, 128, 63, 0, 0, 0, 64])
        (save_checkpoint (\<lambda>state. msgpack_serialize (to_state_dict state)) ''checkpoint.msgpack''
           (demo_tree [0, 0, 128, 63, 0, 0, 0, 64]) 4 demo_world)
       = Inr (demo_tree [0, 0, 128, 63, 0, 0, 0, 64])
   \<and> from_bytes (demo_tree [9, 9, 9, 9, 9, 9, 9, 9])
        (msgpack_serialize (to_state_dict (demo_tree [0, 0, 128, 63, 0, 0, 0, 64])))
       = Inr (demo_tree [0, 0, 128, 63, 0, 0, 0, 64])
   \<and> from_bytes (Dict [(''kernel'', Tensor [1, 2] ''float32'' [])])
        (msgpack_serialize (to_state_dict (demo_tree [0, 0, 128, 63, 0, 0, 0, 64])))
       = Inl ShapeError
   \<and> msgpack_serialize (to_state_dict (Tensor [1, 2] ''f4'' [7, 200]))
       = [0, 2, 1, 2, 2, 102, 52, 2, 7, 200]"
proof -
  have h: "CHR ''/'' \<notin> set ''checkpoint.msgpack''" by simp
  note t = checkpoint_round_trip
    [of "demo_tree [0, 0, 128, 63, 0, 0, 0, 64]" "''checkpoint.msgpack''" 4 demo_world]
  show ?thesis
    apply (intro conjI)
        apply (rule h)
       apply (rule t [THEN conjunct2, THEN mp, OF h])
      apply (rule demo_other_template)
     apply (rule demo_mismatch)
    apply (rule demo_serialized)
    done
qed


subsection \<open>The regularization coefficient zero\<close>





lemma f32_of_real_not_NaN [simp]: "f32_of_real v \<noteq> NaN"
  by (simp add: f32_of_real_def)



lemma f32_add_NaN_right [simp]: "f32_add x NaN = NaN"
  by (cases x) simp_all

lemma f32_sub_NaN [simp]: "f32_sub x NaN = NaN"
  by (simp add: f32_sub_def)







text \<open>
  The float32 variants share everything before their last lines with \<open>sd_loss_fn\<close> and
  \<open>resnet_loss_fn\<close>: the latter are the same terms followed by the same lines over the reals.
\<close>

lemma sd_loss_fn_terms:
  "sd_loss_fn m fn prm k b r =
     bindE (sd_loss_terms m fn prm k b) (\<lambda>(log_likelihood, kl).
       bindE (jnp_map2 (\<lambda>l k. l - r * k) log_likelihood kl) (\<lambda>elbo.
       Inr (- jnp_mean elbo, - jnp_mean log_likelihood)))"
  unfolding sd_loss_fn_def sd_loss_terms_def Let_def
  by (simp add: bindE_def case_prod_beta split: sum.splits)

lemma resnet_loss_fn_terms:
  "resnet_loss_fn m prm k b r =
     bindE (resnet_loss_terms m prm k b) (\<lambda>(log_likelihood, kl).
       bindE (vmap2 (jnp_map2 (\<lambda>l k. l - r * k)) log_likelihood kl) (\<lambda>elbo.
       Inr (- jnp_mean (concat elbo), - jnp_mean (concat log_likelihood))))"
  unfolding resnet_loss_fn_def resnet_loss_terms_def Let_def
  by (simp add: bindE_def split: sum.splits)

























end
